theory Spec2Isabelle
  imports Complex_Main "HOL-Library.Multiset" "HOL-Library.List_Lexorder" "HOL-Library.Char_ord"
begin

section \<open>JavaScript values and array operations\<close>

text \<open>
  A JavaScript number is modelled as an exact rational; rounding of IEEE doubles is not
  modelled. A nullable number is a \<open>number option\<close> with \<open>None\<close> for \<open>null\<close>.
  Timestamps (\<open>Date.valueOf()\<close>) are integers, entity ids are naturals.
\<close>

type_synonym number = rat

text \<open>Arithmetic on a nullable number converts \<open>null\<close> to 0.\<close>

fun toNumber :: "number option \<Rightarrow> number" where
  "toNumber None = 0"
| "toNumber (Some x) = x"

text \<open>\<open>!!x\<close> for a nullable number: \<open>null\<close> and 0 are falsy.\<close>

fun truthy :: "number option \<Rightarrow> bool" where
  "truthy None = False"
| "truthy (Some x) = (x \<noteq> 0)"

text \<open>\<open>Array.prototype.findIndex\<close>: the index of the first match, or -1.\<close>

fun findIndex :: "('a \<Rightarrow> bool) \<Rightarrow> 'a list \<Rightarrow> int" where
  "findIndex p [] = - 1"
| "findIndex p (x # xs) =
     (if p x then 0 else (let i = findIndex p xs in if i < 0 then - 1 else i + 1))"

definition indexOf :: "'a list \<Rightarrow> 'a \<Rightarrow> int" where
  "indexOf xs v = findIndex (\<lambda>x. x = v) xs"

text \<open>
  \<open>Array.prototype.filter\<close> with the three-argument callback \<open>(element, index, array)\<close>;
  \<open>filter_from i p array rest\<close> runs over the elements from index \<open>i\<close> on.
\<close>

fun filter_from :: "nat \<Rightarrow> ('a \<Rightarrow> nat \<Rightarrow> 'a list \<Rightarrow> bool) \<Rightarrow> 'a list \<Rightarrow> 'a list \<Rightarrow> 'a list" where
  "filter_from i p array [] = []"
| "filter_from i p array (x # xs) =
     (if p x i array then x # filter_from (Suc i) p array xs
      else filter_from (Suc i) p array xs)"

definition filter_indexed :: "('a \<Rightarrow> nat \<Rightarrow> 'a list \<Rightarrow> bool) \<Rightarrow> 'a list \<Rightarrow> 'a list" where
  "filter_indexed p array = filter_from 0 p array array"

text \<open>
  The recurring idiom
  \<open>.filter((x, index, array) => array.findIndex((item) => key(item) === key(x)) === index)\<close>.
\<close>

definition firstPerKey :: "('a \<Rightarrow> 'k) \<Rightarrow> 'a list \<Rightarrow> 'a list" where
  "firstPerKey key xs =
     filter_indexed (\<lambda>x index array. findIndex (\<lambda>item. key item = key x) array = int index) xs"

text \<open>
  \<open>Array.prototype.sort\<close> with a comparator. The sort is stable; for a consistent
  comparator the result is the stable insertion of each element before the first element it
  does not follow. The source sorts in place: the callers below write the result back into
  the object that owns the array.
\<close>

fun insert_cmp :: "('a \<Rightarrow> 'a \<Rightarrow> 'n::{ord,zero}) \<Rightarrow> 'a \<Rightarrow> 'a list \<Rightarrow> 'a list" where
  "insert_cmp cmp x [] = [x]"
| "insert_cmp cmp x (y # ys) = (if cmp x y \<le> 0 then x # y # ys else y # insert_cmp cmp x ys)"

definition sort_cmp :: "('a \<Rightarrow> 'a \<Rightarrow> 'n::{ord,zero}) \<Rightarrow> 'a list \<Rightarrow> 'a list" where
  "sort_cmp cmp xs = foldr (insert_cmp cmp) xs []"

text \<open>
  \<open>String.prototype.localeCompare\<close> orders strings by the collation of the host; the
  collation is a parameter, \<open>collate\<close>, sending a string to its sort key.
\<close>

definition localeCompare :: "(string \<Rightarrow> 'k::linorder) \<Rightarrow> string \<Rightarrow> string \<Rightarrow> int" where
  "localeCompare collate a b =
     (if collate a < collate b then - 1 else if collate a = collate b then 0 else 1)"

section \<open>Entities\<close>

datatype ActivityCategoryType = Point | Time | Stage

record ExamSchedule =
  startDate :: int

record Exam =
  exam_id :: nat
  passingPoints :: number
  schedules :: "ExamSchedule list"

record ExamCompletion =
  ec_score :: number
  ec_submittedAt :: int
  ec_exam :: Exam

text \<open>The \<open>activity\<close> relation of a category, as loaded with a completion: id and game type.\<close>

record ActivityRef =
  activity_id :: nat
  game_type :: ActivityCategoryType

record ActivityCategory =
  cat_id :: nat
  level :: nat
  updatedAt :: int
  cat_activity :: ActivityRef

record ActivityCategoryCompletion =
  score :: number
  timeCompletedSeconds :: number
  submittedAt :: int
  activityCategory :: ActivityCategory
  com_student :: nat

record Activity =
  act_id :: nat
  act_game_type :: ActivityCategoryType
  categories :: "ActivityCategory list"

record StudentUserAccount =
  student_id :: nat
  firstName :: string
  lastName :: string
  middleName :: "string option"
  examCompletions :: "ExamCompletion list"
  activityCompletions :: "ActivityCategoryCompletion list"

text \<open>
  Modelled from the spec: \<open>generateFullName\<close> of \<open>common/helpers/string.helper\<close> is not
  among the sources. The spec calls its result the full name, "first + last, with middle
  name included in the comparable string", and writes \<open>Ana Cruz\<close> for first name Ana and
  last name Cruz.
\<close>

definition generateFullName :: "string \<Rightarrow> string \<Rightarrow> string option \<Rightarrow> string" where
  "generateFullName fName lName mName =
     (case mName of None \<Rightarrow> fName @ '' '' @ lName
      | Some m \<Rightarrow> fName @ '' '' @ m @ '' '' @ lName)"

definition fullName :: "StudentUserAccount \<Rightarrow> string" where
  "fullName s = generateFullName (firstName s) (lastName s) (middleName s)"

section \<open>PerformanceService: overall rankings (competition policy)\<close>

text \<open>
  The callback of the final \<open>.map\<close> of both overall rankings reads and writes the two
  variables \<open>previousScore\<close> and \<open>currentRank\<close> of the enclosing function; they are
  threaded through the recursion, with the index of the element.
\<close>

fun rankMap :: "('a \<Rightarrow> number option) \<Rightarrow> number option \<Rightarrow> nat option \<Rightarrow> nat \<Rightarrow> 'a list
    \<Rightarrow> ('a \<times> nat option) list" where
  "rankMap sc previousScore currentRank index [] = []"
| "rankMap sc previousScore currentRank index (s # ss) =
     (let currentRank' = (if sc s \<noteq> previousScore then Some (index + 1) else currentRank)
      in (s, currentRank') # rankMap sc (sc s) currentRank' (index + 1) ss)"

record ExamStudent =
  es_student :: StudentUserAccount
  overallExamScore :: "number option"
  overallExamRank :: "nat option"

record ExamRankings =
  rankedExamStudents :: "ExamStudent list"
  unrankedExamStudents :: "ExamStudent list"

text \<open>
  \<open>student.examCompletions.sort(...)\<close> sorts the student's own array; the student after
  the call is \<open>sortExamCompletions student\<close>, and the spread \<open>{ ...student }\<close> copies the
  reference to that array.
\<close>

definition sortExamCompletions :: "StudentUserAccount \<Rightarrow> StudentUserAccount" where
  "sortExamCompletions student =
     student\<lparr>examCompletions :=
       sort_cmp (\<lambda>catA catB. ec_submittedAt catB - ec_submittedAt catA) (examCompletions student)\<rparr>"

definition transformExamStudent :: "StudentUserAccount \<Rightarrow> ExamStudent" where
  "transformExamStudent student0 =
     (let student = sortExamCompletions student0;
          filteredExamCompletions =
            firstPerKey (\<lambda>c. exam_id (ec_exam c)) (examCompletions student)
      in if filteredExamCompletions = []
         then \<lparr>es_student = student, overallExamScore = None, overallExamRank = None\<rparr>
         else \<lparr>es_student = student,
               overallExamScore =
                 Some (foldl (\<lambda>total currentValue. ec_score currentValue + total) 0
                         filteredExamCompletions),
               overallExamRank = None\<rparr>)"

text \<open>
  The result is the returned object paired with the input array as the call leaves it.
\<close>

definition generateOverallExamRankings ::
    "(string \<Rightarrow> 'k::linorder) \<Rightarrow> StudentUserAccount list \<Rightarrow> ExamRankings \<times> StudentUserAccount list" where
  "generateOverallExamRankings collate students =
     (let transformedStudents = map transformExamStudent students;
          rankedStudents =
            map (\<lambda>(student, currentRank). student\<lparr>overallExamRank := currentRank\<rparr>)
              (rankMap overallExamScore None None 0
                (sort_cmp (\<lambda>a b. toNumber (overallExamScore b) - toNumber (overallExamScore a))
                  (filter (\<lambda>s. overallExamScore s \<noteq> None) transformedStudents)));
          unrankedStudents =
            map (\<lambda>s. s\<lparr>overallExamRank := None\<rparr>)
              (sort_cmp (\<lambda>a b. localeCompare collate (fullName (es_student a))
                                 (fullName (es_student b)))
                (filter (\<lambda>s. overallExamScore s = None) transformedStudents))
      in (\<lparr>rankedExamStudents = rankedStudents, unrankedExamStudents = unrankedStudents\<rparr>,
          map es_student transformedStudents))"

record ActivityStudent =
  as_student :: StudentUserAccount
  overallActivityScore :: "number option"
  overallActivityRank :: "nat option"

record ActivityRankings =
  rankedActivityStudents :: "ActivityStudent list"
  unrankedActivityStudents :: "ActivityStudent list"

definition sortActivityCompletions :: "StudentUserAccount \<Rightarrow> StudentUserAccount" where
  "sortActivityCompletions student =
     student\<lparr>activityCompletions :=
       sort_cmp (\<lambda>catA catB. submittedAt catB - submittedAt catA) (activityCompletions student)\<rparr>"

text \<open>
  The contribution of one time-based activity: the callback of
  \<open>timeActivityIds.map\<close>. \<open>com.score || 0\<close> is \<open>com.score\<close> for a number.
\<close>

definition timeActivityAverage ::
    "ActivityCategoryCompletion list \<Rightarrow> nat \<Rightarrow> number option" where
  "timeActivityAverage timeActivityCompletions activityId =
     (let targetCompletions =
            filter (\<lambda>com. activity_id (cat_activity (activityCategory com)) = activityId)
              timeActivityCompletions;
          filteredTargetCompletions =
            firstPerKey (\<lambda>com. level (activityCategory com)) targetCompletions
      in if length filteredTargetCompletions = 3
         then Some (foldl (\<lambda>total com. score com + total) 0 filteredTargetCompletions / 3)
         else None)"

definition transformActivityStudent :: "StudentUserAccount \<Rightarrow> ActivityStudent" where
  "transformActivityStudent student0 =
     (let student = sortActivityCompletions student0;
          filteredActivityCompletions =
            firstPerKey (\<lambda>c. cat_id (activityCategory c)) (activityCompletions student)
      in if filteredActivityCompletions = []
         then \<lparr>as_student = student, overallActivityScore = None, overallActivityRank = None\<rparr>
         else
           let poinLevelActivityCompletions =
                 filter (\<lambda>com. game_type (cat_activity (activityCategory com)) \<noteq> Time)
                   filteredActivityCompletions;
               totalPointLevelScore =
                 foldl (\<lambda>total com. score com + total) 0 poinLevelActivityCompletions;
               timeActivityCompletions =
                 filter (\<lambda>com. game_type (cat_activity (activityCategory com)) = Time)
                   filteredActivityCompletions;
               timeActivityIds =
                 filter_indexed (\<lambda>i index array. indexOf array i = int index)
                   (map (\<lambda>com. activity_id (cat_activity (activityCategory com)))
                      timeActivityCompletions);
               totalTimeScore =
                 foldl (\<lambda>total avgTime. total + 1 / toNumber avgTime) 0
                   (filter truthy
                      (map (timeActivityAverage timeActivityCompletions) timeActivityIds))
           in \<lparr>as_student = student,
               overallActivityScore = Some (totalPointLevelScore + totalTimeScore),
               overallActivityRank = None\<rparr>)"

definition generateOverallActivityRankings ::
    "(string \<Rightarrow> 'k::linorder) \<Rightarrow> StudentUserAccount list
      \<Rightarrow> ActivityRankings \<times> StudentUserAccount list" where
  "generateOverallActivityRankings collate students =
     (let transformedStudents = map transformActivityStudent students;
          rankedStudents =
            map (\<lambda>(student, currentRank). student\<lparr>overallActivityRank := currentRank\<rparr>)
              (rankMap overallActivityScore None None 0
                (sort_cmp
                  (\<lambda>a b. toNumber (overallActivityScore b) - toNumber (overallActivityScore a))
                  (filter (\<lambda>s. overallActivityScore s \<noteq> None) transformedStudents)));
          unrankedStudents =
            map (\<lambda>s. s\<lparr>overallActivityRank := None\<rparr>)
              (sort_cmp (\<lambda>a b. localeCompare collate (fullName (as_student a))
                                 (fullName (as_student b)))
                (filter (\<lambda>s. overallActivityScore s = None) transformedStudents))
      in (\<lparr>rankedActivityStudents = rankedStudents, unrankedActivityStudents = unrankedStudents\<rparr>,
          map as_student transformedStudents))"

section \<open>ActivityService: per-activity scores and rankings (sequential policy)\<close>

datatype error = TypeError

text \<open>
  \<open>activity.categories.sort(...)\<close> sorts the activity's own array; the activity after the
  call is \<open>sortCategories activity\<close>.
\<close>

definition sortCategories :: "Activity \<Rightarrow> Activity" where
  "sortCategories activity =
     activity\<lparr>categories :=
       sort_cmp (\<lambda>catA catB. updatedAt catB - updatedAt catA) (categories activity)\<rparr>"

text \<open>
  \<open>activityCategoryCompletionRepo.find\<close> with the where-clause
  \<open>{ activityCategory: { id: In(categoryIds) }, student: { id: studentId } }\<close>: the rows of
  the completion table \<open>db\<close> that satisfy the clause.
\<close>

definition find_completions ::
    "ActivityCategoryCompletion list \<Rightarrow> nat list \<Rightarrow> nat \<Rightarrow> ActivityCategoryCompletion list" where
  "find_completions db categoryIds studentId =
     filter (\<lambda>com. cat_id (activityCategory com) \<in> set categoryIds \<and> com_student com = studentId) db"

record StudentData =
  sd_studentId :: nat
  sd_score :: "number option"
  sd_completions :: "ActivityCategoryCompletion list"

text \<open>The two sorts applied to the completions of one category for point and stage games.\<close>

definition sortByTime :: "ActivityCategoryCompletion list \<Rightarrow> ActivityCategoryCompletion list" where
  "sortByTime = sort_cmp (\<lambda>comA comB. timeCompletedSeconds comA - timeCompletedSeconds comB)"

definition sortByScoreDesc :: "ActivityCategoryCompletion list \<Rightarrow> ActivityCategoryCompletion list" where
  "sortByScoreDesc = sort_cmp (\<lambda>comA comB. score comB - score comA)"

text \<open>The \<open>filteredCategories.reduce\<close> of the point branch and of the time branch.\<close>

definition pointCompletions ::
    "ActivityCategory list \<Rightarrow> ActivityCategoryCompletion list \<Rightarrow> ActivityCategoryCompletion list" where
  "pointCompletions filteredCategories targetCompletions =
     foldl (\<lambda>total cat.
              case sortByScoreDesc (sortByTime
                     (filter (\<lambda>com. cat_id (activityCategory com) = cat_id cat) targetCompletions)) of
                [] \<Rightarrow> total
              | c # _ \<Rightarrow> total @ [c])
       [] filteredCategories"

definition timeCompletions ::
    "ActivityCategory list \<Rightarrow> ActivityCategoryCompletion list \<Rightarrow> ActivityCategoryCompletion list" where
  "timeCompletions filteredCategories targetCompletions =
     foldl (\<lambda>total cat.
              case sortByTime
                     (filter (\<lambda>com. cat_id (activityCategory com) = cat_id cat) targetCompletions) of
                [] \<Rightarrow> total
              | c # _ \<Rightarrow> total @ [c])
       [] filteredCategories"

text \<open>
  \<open>targetCompletions.filter((com) => com.activityCategory.id === targetCategory.id)\<close> of the
  stage branches: with \<open>targetCategory\<close> null the callback throws on the first element.
\<close>

definition filterTargetCategory ::
    "ActivityCategory option \<Rightarrow> ActivityCategoryCompletion list
      \<Rightarrow> error + ActivityCategoryCompletion list" where
  "filterTargetCategory targetCategory targetCompletions =
     (case targetCategory of
        Some cat \<Rightarrow>
          Inr (filter (\<lambda>com. cat_id (activityCategory com) = cat_id cat) targetCompletions)
      | None \<Rightarrow> (if targetCompletions = [] then Inr [] else Inl TypeError))"

text \<open>The body of the callback of \<open>students.map\<close>, after the completions are fetched.\<close>

definition studentDatum ::
    "ActivityCategoryType \<Rightarrow> ActivityCategory list \<Rightarrow> ActivityCategoryCompletion list \<Rightarrow> nat
      \<Rightarrow> error + StudentData" where
  "studentDatum gameType filteredCategories targetCompletions studentId =
     (if gameType = Point then
        let completions = pointCompletions filteredCategories targetCompletions;
            score' = (if completions \<noteq> []
                      then Some (foldl (\<lambda>total com. total + score com) 0 completions)
                      else None)
        in Inr \<lparr>sd_studentId = studentId, sd_score = score', sd_completions = completions\<rparr>
      else if gameType = Time then
        let completions = timeCompletions filteredCategories targetCompletions;
            score' = (if completions \<noteq> []
                      then Some (foldl (\<lambda>total com. total + timeCompletedSeconds com) 0 completions
                                 / of_nat (length completions))
                      else None)
        in Inr \<lparr>sd_studentId = studentId, sd_score = score', sd_completions = completions\<rparr>
      else
        let targetCategory = (case filteredCategories of [] \<Rightarrow> None | cat # _ \<Rightarrow> Some cat)
        in case filterTargetCategory targetCategory targetCompletions of
             Inl e \<Rightarrow> Inl e
           | Inr cs \<Rightarrow>
               let completions = sortByScoreDesc (sortByTime cs)
               in Inr \<lparr>sd_studentId = studentId,
                       sd_score = (case completions of [] \<Rightarrow> None | c # _ \<Rightarrow> Some (score c)),
                       sd_completions = completions\<rparr>)"

text \<open>\<open>Promise.all\<close>: the array of the results, or the rejection of a member.\<close>

fun promise_all :: "(error + 'a) list \<Rightarrow> error + 'a list" where
  "promise_all [] = Inr []"
| "promise_all (Inl e # rs) = Inl e"
| "promise_all (Inr x # rs) = (case promise_all rs of Inl e \<Rightarrow> Inl e | Inr xs \<Rightarrow> Inr (x # xs))"

record RankedData =
  rd_data :: StudentData
  rank :: "nat option"

text \<open>\<open>.map((data, index) => ({ ...data, rank: index + 1 }))\<close>.\<close>

definition withRank :: "StudentData list \<Rightarrow> RankedData list" where
  "withRank ds = map (\<lambda>(index, data). \<lparr>rd_data = data, rank = Some (index + 1)\<rparr>) (enumerate 0 ds)"

definition withoutRank :: "StudentData list \<Rightarrow> RankedData list" where
  "withoutRank ds = map (\<lambda>data. \<lparr>rd_data = data, rank = None\<rparr>) ds"

text \<open>The ranking part of \<open>generateActivityRankings\<close>, one branch per game type.\<close>

definition rankStudentData :: "ActivityCategoryType \<Rightarrow> StudentData list \<Rightarrow> RankedData list" where
  "rankStudentData gameType studentData =
     (if gameType = Point then
        withRank (sort_cmp (\<lambda>dataA dataB. toNumber (sd_score dataB) - toNumber (sd_score dataA))
                    (filter (\<lambda>data. sd_score data \<noteq> None) studentData))
        @ withoutRank (filter (\<lambda>data. sd_score data = None) studentData)
      else if gameType = Time then
        withRank (sort_cmp (\<lambda>dataA dataB. toNumber (sd_score dataA) - toNumber (sd_score dataB))
                    (filter (\<lambda>data. sd_score data \<noteq> None \<and> length (sd_completions data) \<ge> 3)
                       studentData))
        @ withoutRank (filter (\<lambda>data. sd_score data = None \<or> length (sd_completions data) < 3)
                         studentData)
      else
        withRank (sort_cmp (\<lambda>dataA dataB. toNumber (sd_score dataB) - toNumber (sd_score dataA))
                    (filter (\<lambda>data. sd_score data \<noteq> None) studentData))
        @ withoutRank (filter (\<lambda>data. sd_score data = None) studentData))"

text \<open>
  \<open>generateActivityRankings(activity, teacherId)\<close>. \<open>students\<close> is the roster that
  \<open>userService.getStudentsByTeacherId(teacherId)\<close> returns and \<open>db\<close> the completion table.
  \<open>studentDataOf\<close> is the first half of the function, up to the value of the variable
  \<open>studentData\<close>, computed from the activity with its categories already sorted.
\<close>

definition studentDataOf ::
    "ActivityCategoryCompletion list \<Rightarrow> StudentUserAccount list \<Rightarrow> Activity
      \<Rightarrow> error + StudentData list" where
  "studentDataOf db students activity =
     (let filteredCategories = firstPerKey level (categories activity);
          categoryIds = map cat_id filteredCategories
      in promise_all
           (map (\<lambda>student.
                   studentDatum (act_game_type activity) filteredCategories
                     (find_completions db categoryIds (student_id student)) (student_id student))
              students))"

text \<open>The result is paired with the input activity as the call leaves it.\<close>

definition generateActivityRankings ::
    "ActivityCategoryCompletion list \<Rightarrow> StudentUserAccount list \<Rightarrow> Activity
      \<Rightarrow> (error + RankedData list) \<times> Activity" where
  "generateActivityRankings db students activity0 =
     (let activity = sortCategories activity0
      in (case studentDataOf db students activity of
            Inl e \<Rightarrow> Inl e
          | Inr studentData \<Rightarrow> Inr (rankStudentData (act_game_type activity) studentData),
          activity))"

text \<open>
  \<open>generateActivityWithCompletions\<close> stores in the \<open>completions\<close> property of each returned
  category either one completion object (\<open>completions[0]\<close>) or the empty array. The
  \<open>length\<close> of a completion object is undefined and that of the empty array is 0.
\<close>

datatype CompletionsField = Single ActivityCategoryCompletion | EmptyArray

fun completionsLength :: "CompletionsField \<Rightarrow> number option" where
  "completionsLength (Single c) = None"
| "completionsLength EmptyArray = Some 0"

record CategoryWithCompletions =
  cwc_category :: ActivityCategory
  cwc_completions :: CompletionsField

record ActivityWithCompletions =
  awc_activity :: Activity
  awc_categories :: "CategoryWithCompletions list"
  awc_score :: "number option"

definition firstOrEmpty :: "ActivityCategoryCompletion list \<Rightarrow> CompletionsField" where
  "firstOrEmpty completions = (case completions of [] \<Rightarrow> EmptyArray | c # _ \<Rightarrow> Single c)"

text \<open>
  The reducers of the point and time branches read \<open>cat.completions[0].score\<close> (and
  \<open>.timeCompletedSeconds\<close>): element 0 of a completion object, and of the empty array, is
  undefined, and reading a property of it throws.
\<close>

definition reduceCatWithCompletions :: "CategoryWithCompletions list \<Rightarrow> error + number option" where
  "reduceCatWithCompletions catWithCompletions =
     (if catWithCompletions \<noteq> [] then Inl TypeError else Inr None)"

text \<open>
  \<open>catWithCompletions[0]?.completions[0]?.score || null\<close> of the stage branch: element 0
  of a completion object, and of the empty array, is undefined, so the optional chain yields
  undefined, and \<open>|| null\<close> turns a falsy value into null.
\<close>

fun elementZeroScore :: "CompletionsField \<Rightarrow> number option" where
  "elementZeroScore (Single c) = None"
| "elementZeroScore EmptyArray = None"

definition orNull :: "number option \<Rightarrow> number option" where
  "orNull x = (if truthy x then x else None)"

definition generateActivityWithCompletions ::
    "ActivityCategoryCompletion list \<Rightarrow> Activity \<Rightarrow> nat
      \<Rightarrow> (error + ActivityWithCompletions) \<times> Activity" where
  "generateActivityWithCompletions db activity0 studentId =
     (let activity = sortCategories activity0;
          filteredCategories = firstPerKey level (categories activity);
          categoryIds = map cat_id filteredCategories;
          targetCompletions = find_completions db categoryIds studentId;
          ofCategory = (\<lambda>cat. filter (\<lambda>com. cat_id (activityCategory com) = cat_id cat)
                                 targetCompletions);
          hasLength = (\<lambda>cat. truthy (completionsLength (cwc_completions cat)))
      in (if act_game_type activity = Point then
            let categories' =
                  map (\<lambda>cat. \<lparr>cwc_category = cat,
                               cwc_completions =
                                 firstOrEmpty (sortByScoreDesc (sortByTime (ofCategory cat)))\<rparr>)
                    filteredCategories;
                catWithCompletions = filter hasLength categories'
            in (case reduceCatWithCompletions catWithCompletions of
                  Inl e \<Rightarrow> Inl e
                | Inr score' \<Rightarrow>
                    Inr \<lparr>awc_activity = activity, awc_categories = categories',
                         awc_score = score'\<rparr>)
          else if act_game_type activity = Time then
            let categories' =
                  map (\<lambda>cat. \<lparr>cwc_category = cat,
                               cwc_completions = firstOrEmpty (sortByTime (ofCategory cat))\<rparr>)
                    filteredCategories;
                catWithCompletions = filter hasLength categories'
            in (case reduceCatWithCompletions catWithCompletions of
                  Inl e \<Rightarrow> Inl e
                | Inr score' \<Rightarrow>
                    Inr \<lparr>awc_activity = activity, awc_categories = categories',
                         awc_score = score'\<rparr>)
          else
            let targetCategory = (case filteredCategories of [] \<Rightarrow> None | cat # _ \<Rightarrow> Some cat)
            in (case filterTargetCategory targetCategory targetCompletions of
                  Inl e \<Rightarrow> Inl e
                | Inr cs \<Rightarrow>
                    let completions = sortByScoreDesc (sortByTime cs);
                        categories' =
                          (case targetCategory of
                             Some cat \<Rightarrow> [\<lparr>cwc_category = cat,
                                           cwc_completions = firstOrEmpty completions\<rparr>]
                           | None \<Rightarrow> []);
                        catWithCompletions =
                          sort_cmp (\<lambda>catA catB. updatedAt (cwc_category catB)
                                                  - updatedAt (cwc_category catA))
                            (filter hasLength categories');
                        score' =
                          (case catWithCompletions of
                             [] \<Rightarrow> None
                           | cat # _ \<Rightarrow> orNull (elementZeroScore (cwc_completions cat)))
                    in Inr \<lparr>awc_activity = activity, awc_categories = categories',
                            awc_score = score'\<rparr>),
          activity))"

section \<open>PerformanceService: detailed performance of one student\<close>

text \<open>
  The two completion percentages of the source are numbers formatted by \<open>toFixed\<close>; they
  depend on floating-point formatting only and are left out of the two records below.
\<close>

record ExamPerformance =
  currentExamCount :: nat
  examsCompletedCount :: nat
  examsPassedCount :: nat
  examsFailedCount :: nat
  examsExpiredCount :: nat
  perf_overallExamRank :: "nat option"
  perf_overallExamScore :: "number option"

text \<open>
  \<open>generateOverallExamDetailedPerformance(student, otherStudents)\<close>. \<open>allExams\<close> is what
  \<open>examService.getAllByStudentId\<close> returns and \<open>now\<close> the current time. Destructuring the
  result of \<open>find\<close> throws when no entry has the student's id. The result is paired with
  the array \<open>[student, ...otherStudents]\<close> as the call leaves it.
\<close>

definition generateOverallExamDetailedPerformance ::
    "(string \<Rightarrow> 'k::linorder) \<Rightarrow> int \<Rightarrow> Exam list \<Rightarrow> StudentUserAccount \<Rightarrow> StudentUserAccount list
      \<Rightarrow> (error + ExamPerformance) \<times> StudentUserAccount list" where
  "generateOverallExamDetailedPerformance collate now allExams student otherStudents =
     (let availableExams =
            filter (\<lambda>exam. list_ex (\<lambda>schedule. startDate schedule < now \<or> startDate schedule = now)
                              (schedules exam))
              allExams;
          examCompletions' = firstPerKey (\<lambda>ec. exam_id (ec_exam ec)) (examCompletions student);
          examsPassedCount' =
            length (filter (\<lambda>ec. ec_score ec \<ge> passingPoints (ec_exam ec)) examCompletions');
          examsFailedCount' =
            length (filter (\<lambda>ec. ec_score ec < passingPoints (ec_exam ec)) examCompletions');
          examsExpiredCount' =
            length (filter (\<lambda>exam. find (\<lambda>ec. exam_id (ec_exam ec) = exam_id exam) examCompletions'
                                      = None)
                      availableExams);
          (rankings, students') = generateOverallExamRankings collate (student # otherStudents)
      in (case find (\<lambda>s. student_id (es_student s) = student_id student)
                 (rankedExamStudents rankings @ unrankedExamStudents rankings) of
            None \<Rightarrow> Inl TypeError
          | Some s \<Rightarrow>
              Inr \<lparr>currentExamCount = length availableExams,
                   examsCompletedCount = length examCompletions',
                   examsPassedCount = examsPassedCount',
                   examsFailedCount = examsFailedCount',
                   examsExpiredCount = examsExpiredCount',
                   perf_overallExamRank = overallExamRank s,
                   perf_overallExamScore = overallExamScore s\<rparr>,
          students'))"

record ActivityPerformance =
  perf_overallActivityRank :: "nat option"
  perf_overallActivityScore :: "number option"
  totalActivityCount :: nat
  activitiesCompletedCount :: nat

text \<open>The body of \<open>allActivities.forEach\<close>, as a step on the counter.\<close>

definition countActivity ::
    "ActivityCategoryCompletion list \<Rightarrow> nat \<Rightarrow> Activity \<Rightarrow> nat" where
  "countActivity sortedCompletions activitiesCompletedCount' activity =
     (let completions =
            firstPerKey (\<lambda>com. level (activityCategory com))
              (filter (\<lambda>com. list_ex (\<lambda>cat. cat_id cat = cat_id (activityCategory com))
                                (categories activity))
                 sortedCompletions)
      in if completions = [] then activitiesCompletedCount'
         else if act_game_type activity = Stage then activitiesCompletedCount' + 1
         else if length completions = 3 then activitiesCompletedCount' + 1
         else activitiesCompletedCount')"

text \<open>
  \<open>generateOverallActivityDetailedPerformance(student, otherStudents)\<close>; \<open>allActivities\<close> is
  what \<open>activityService.getAllByStudentId\<close> returns.
\<close>

definition generateOverallActivityDetailedPerformance ::
    "(string \<Rightarrow> 'k::linorder) \<Rightarrow> Activity list \<Rightarrow> StudentUserAccount \<Rightarrow> StudentUserAccount list
      \<Rightarrow> (error + ActivityPerformance) \<times> StudentUserAccount list" where
  "generateOverallActivityDetailedPerformance collate allActivities student0 otherStudents =
     (let student = sortActivityCompletions student0;
          sortedCompletions = activityCompletions student;
          (rankings, students') = generateOverallActivityRankings collate (student # otherStudents)
      in (case find (\<lambda>s. student_id (as_student s) = student_id student)
                 (rankedActivityStudents rankings @ unrankedActivityStudents rankings) of
            None \<Rightarrow> Inl TypeError
          | Some s \<Rightarrow>
              Inr \<lparr>perf_overallActivityRank = overallActivityRank s,
                   perf_overallActivityScore = overallActivityScore s,
                   totalActivityCount = length allActivities,
                   activitiesCompletedCount =
                     foldl (countActivity sortedCompletions) 0 allActivities\<rparr>,
          students'))"

section \<open>Specification predicates and proof-level functions\<close>

text \<open>
  \<open>firstsAcc key seen xs\<close> keeps the elements of \<open>xs\<close> whose key is neither in \<open>seen\<close>
  nor carried by an earlier element; \<open>firstPerKey\<close> is shown below to compute it.
\<close>

fun firstsAcc :: "('a \<Rightarrow> 'k) \<Rightarrow> 'k set \<Rightarrow> 'a list \<Rightarrow> 'a list" where
  "firstsAcc key seen [] = []"
| "firstsAcc key seen (x # xs) =
     (if key x \<in> seen then firstsAcc key seen xs else x # firstsAcc key (insert (key x) seen) xs)"

text \<open>
  Competition ranking, in the words of the specification: the list holds scored entries
  only, in descending order of score; the first entry has rank 1; an entry with the score of
  its predecessor shares the predecessor's rank and an entry with another score has its
  1-based position as rank; so the rank is one more than the number of entries with a
  strictly higher score ("1-2-2-4").
\<close>

definition competition_ranked ::
    "('a \<Rightarrow> number option) \<Rightarrow> ('a \<Rightarrow> nat option) \<Rightarrow> 'a list \<Rightarrow> bool" where
  "competition_ranked sc rk R \<longleftrightarrow>
     (\<forall>s\<in>set R. sc s \<noteq> None) \<and>
     sorted_wrt (\<lambda>a b. toNumber (sc b) \<le> toNumber (sc a)) R \<and>
     (\<forall>k<length R. k = 0 \<longrightarrow> rk (R ! k) = Some 1) \<and>
     (\<forall>k<length R. Suc k < length R \<longrightarrow>
        (if sc (R ! Suc k) = sc (R ! k) then rk (R ! Suc k) = rk (R ! k)
         else rk (R ! Suc k) = Some (Suc k + 1))) \<and>
     (\<forall>k<length R.
        rk (R ! k) = Some (Suc (length (filter (\<lambda>t. toNumber (sc (R ! k)) < toNumber (sc t)) R))))"

text \<open>
  The filter that \<open>generateActivityRankings\<close> applies before ranking: a score, and for a
  time game at least three completions.
\<close>

definition eligible :: "ActivityCategoryType \<Rightarrow> StudentData \<Rightarrow> bool" where
  "eligible gameType data \<longleftrightarrow>
     sd_score data \<noteq> None \<and> (gameType = Time \<longrightarrow> 3 \<le> length (sd_completions data))"

definition rankKey :: "ActivityCategoryType \<Rightarrow> StudentData \<Rightarrow> number" where
  "rankKey gameType data =
     (if gameType = Time then toNumber (sd_score data) else - toNumber (sd_score data))"

text \<open>
  Sequential ranking of the per-student data \<open>ds\<close> (in roster order), in the words of the
  specification: the \<open>n\<close> ranked entries come first with ranks 1 to \<open>n\<close>, the others follow
  with no rank; the ranked entries are in descending order of score (ascending for a time
  game); and ranked entries with the same score stand in roster order.
\<close>

definition sequentially_ranked ::
    "ActivityCategoryType \<Rightarrow> StudentData list \<Rightarrow> RankedData list \<Rightarrow> bool" where
  "sequentially_ranked gameType ds out \<longleftrightarrow>
     (let n = length (filter (eligible gameType) ds)
      in length out = length ds \<and>
         (\<forall>i<length out. rank (out ! i) = (if i < n then Some (i + 1) else None)) \<and>
         sorted_wrt (\<lambda>a b. if gameType = Time then toNumber (sd_score a) \<le> toNumber (sd_score b)
                            else toNumber (sd_score b) \<le> toNumber (sd_score a))
           (map rd_data (take n out)) \<and>
         (\<forall>d\<in>set ds. filter (\<lambda>x. sd_score x = sd_score d) (map rd_data (take n out))
                       = filter (\<lambda>x. sd_score x = sd_score d) (filter (eligible gameType) ds)))"

text \<open>
  The canonical completion of a point game among the completions \<open>L\<close> of one category, in
  the words of the specification: one of maximal score, and of minimal time among those of
  maximal score.
\<close>

definition canonical_point ::
    "ActivityCategoryCompletion list \<Rightarrow> ActivityCategoryCompletion \<Rightarrow> bool" where
  "canonical_point L c \<longleftrightarrow>
     c \<in> set L \<and>
     (\<forall>c'\<in>set L. score c' \<le> score c \<and>
        (score c' = score c \<longrightarrow> timeCompletedSeconds c \<le> timeCompletedSeconds c'))"

definition ofCategory ::
    "ActivityCategoryCompletion list \<Rightarrow> ActivityCategory \<Rightarrow> ActivityCategoryCompletion list" where
  "ofCategory completions cat =
     filter (\<lambda>com. cat_id (activityCategory com) = cat_id cat) completions"

text \<open>
  The data of one student for a point game, in the words of the specification: the
  completions are the canonical ones of the categories that have a completion, one each and
  in the order of the categories; the score is their sum, and null when no category has a
  completion.
\<close>

definition point_scored ::
    "ActivityCategory list \<Rightarrow> ActivityCategoryCompletion list \<Rightarrow> StudentData \<Rightarrow> bool" where
  "point_scored cats completions d \<longleftrightarrow>
     list_all2 (\<lambda>cat c. cat_id (activityCategory c) = cat_id cat
                  \<and> canonical_point (ofCategory completions cat) c)
       (filter (\<lambda>cat. ofCategory completions cat \<noteq> []) cats) (sd_completions d)
     \<and> sd_score d =
         (if \<forall>cat\<in>set cats. ofCategory completions cat = [] then None
          else Some (sum_list (map score (sd_completions d))))"

text \<open>
  The canonical completion of a time game among the completions \<open>L\<close> of one category, in
  the words of the specification: one of minimal time.
\<close>

definition canonical_time ::
    "ActivityCategoryCompletion list \<Rightarrow> ActivityCategoryCompletion \<Rightarrow> bool" where
  "canonical_time L c \<longleftrightarrow>
     c \<in> set L \<and> (\<forall>c'\<in>set L. timeCompletedSeconds c \<le> timeCompletedSeconds c')"

text \<open>
  The data of one student for a time game, in the words of the specification: the
  completions are the canonical ones of the categories that have a completion, one each and
  in the order of the categories, so their number is the number of categories in which the
  student has a completion; the score is the mean of their times, and null when no category
  has a completion.
\<close>

definition time_scored ::
    "ActivityCategory list \<Rightarrow> ActivityCategoryCompletion list \<Rightarrow> StudentData \<Rightarrow> bool" where
  "time_scored cats completions d \<longleftrightarrow>
     list_all2 (\<lambda>cat c. cat_id (activityCategory c) = cat_id cat
                  \<and> canonical_time (ofCategory completions cat) c)
       (filter (\<lambda>cat. ofCategory completions cat \<noteq> []) cats) (sd_completions d)
     \<and> length (sd_completions d) = length (filter (\<lambda>cat. ofCategory completions cat \<noteq> []) cats)
     \<and> sd_score d =
         (if \<forall>cat\<in>set cats. ofCategory completions cat = [] then None
          else Some (sum_list (map timeCompletedSeconds (sd_completions d))
                     / of_nat (length (sd_completions d))))"

section \<open>Example data\<close>

definition exam1 :: Exam where
  "exam1 = \<lparr>exam_id = 1, passingPoints = 75, schedules = [\<lparr>startDate = 0\<rparr>]\<rparr>"

definition mkCategory :: "ActivityCategoryType \<Rightarrow> nat \<Rightarrow> nat \<Rightarrow> int \<Rightarrow> ActivityCategory" where
  "mkCategory gameType i lv upd =
     \<lparr>cat_id = i, level = lv, updatedAt = upd,
      cat_activity = \<lparr>activity_id = 1, game_type = gameType\<rparr>\<rparr>"

definition mkCompletion ::
    "ActivityCategory \<Rightarrow> nat \<Rightarrow> number \<Rightarrow> number \<Rightarrow> int \<Rightarrow> ActivityCategoryCompletion" where
  "mkCompletion cat sid sc secs submitted =
     \<lparr>score = sc, timeCompletedSeconds = secs, submittedAt = submitted,
      activityCategory = cat, com_student = sid\<rparr>"

definition mkStudent :: "nat \<Rightarrow> string \<Rightarrow> string \<Rightarrow> number \<Rightarrow> StudentUserAccount" where
  "mkStudent i fname lname sc =
     \<lparr>student_id = i, firstName = fname, lastName = lname, middleName = None,
      examCompletions = [\<lparr>ec_score = sc, ec_submittedAt = 10, ec_exam = exam1\<rparr>],
      activityCompletions = [mkCompletion (mkCategory Point 1 1 0) i sc 30 10]\<rparr>"

text \<open>Three students with exam and activity scores 90, 90 and 80.\<close>

definition roster3 :: "StudentUserAccount list" where
  "roster3 = [mkStudent 1 ''Ana'' ''Cruz'' 90, mkStudent 2 ''Ben'' ''Cruz'' 90,
              mkStudent 3 ''Cara'' ''Cruz'' 80]"

text \<open>A point activity with one category, and the completion table of \<open>roster3\<close>.\<close>

definition pointActivity1 :: Activity where
  "pointActivity1 = \<lparr>act_id = 1, act_game_type = Point, categories = [mkCategory Point 1 1 0]\<rparr>"

definition db3 :: "ActivityCategoryCompletion list" where
  "db3 = concat (map activityCompletions roster3)"

text \<open>
  A time activity with three levels. Student 1 completed all three (10, 20 and 30 seconds),
  student 2 two of them (5 seconds each), student 3 all three (30 seconds each).
\<close>

definition timeActivity1 :: Activity where
  "timeActivity1 =
     \<lparr>act_id = 1, act_game_type = Time,
      categories = [mkCategory Time 1 1 0, mkCategory Time 2 2 0, mkCategory Time 3 3 0]\<rparr>"

definition dbTime :: "ActivityCategoryCompletion list" where
  "dbTime =
     [mkCompletion (mkCategory Time 1 1 0) 1 0 10 100,
      mkCompletion (mkCategory Time 2 2 0) 1 0 20 101,
      mkCompletion (mkCategory Time 3 3 0) 1 0 30 102,
      mkCompletion (mkCategory Time 1 1 0) 2 0 5 103,
      mkCompletion (mkCategory Time 2 2 0) 2 0 5 104,
      mkCompletion (mkCategory Time 1 1 0) 3 0 30 105,
      mkCompletion (mkCategory Time 2 2 0) 3 0 30 106,
      mkCompletion (mkCategory Time 3 3 0) 3 0 30 107]"

text \<open>A stage activity without categories.\<close>

definition stageActivity0 :: Activity where
  "stageActivity0 = \<lparr>act_id = 2, act_game_type = Stage, categories = []\<rparr>"

text \<open>Two students without any completion, Ben before Ana.\<close>

definition noCompletions :: "nat \<Rightarrow> string \<Rightarrow> string \<Rightarrow> StudentUserAccount" where
  "noCompletions i fname lname =
     \<lparr>student_id = i, firstName = fname, lastName = lname, middleName = None,
      examCompletions = [], activityCompletions = []\<rparr>"

definition rosterBenAna :: "StudentUserAccount list" where
  "rosterBenAna = [noCompletions 1 ''Ben'' ''Cruz'', noCompletions 2 ''Ana'' ''Cruz'']"

text \<open>The three students of \<open>roster3\<close> followed by two students without completions.\<close>

definition roster5 :: "StudentUserAccount list" where
  "roster5 = roster3 @ [noCompletions 4 ''Dan'' ''Cruz'', noCompletions 5 ''Bea'' ''Cruz'']"

text \<open>
  A point activity with the levels 1, 2 and 3. Student 1 has three attempts at level 1 (80
  points in 40 seconds, 70 in 10, 80 in 30) and one at level 3 (60 points), none at level 2.
\<close>

definition pointActivity3 :: Activity where
  "pointActivity3 =
     \<lparr>act_id = 1, act_game_type = Point,
      categories = [mkCategory Point 11 1 0, mkCategory Point 12 2 0, mkCategory Point 13 3 0]\<rparr>"

definition dbPoint :: "ActivityCategoryCompletion list" where
  "dbPoint =
     [mkCompletion (mkCategory Point 11 1 0) 1 80 40 100,
      mkCompletion (mkCategory Point 11 1 0) 1 70 10 101,
      mkCompletion (mkCategory Point 11 1 0) 1 80 30 102,
      mkCompletion (mkCategory Point 13 3 0) 1 60 50 103]"

text \<open>
  A student with two completions of \<open>exam1\<close> (passing points 75), stored in the order of
  submission: 70 points at 10:00 and 90 points at 11:00, as milliseconds of the day.
\<close>

definition studentTwoAttempts :: StudentUserAccount where
  "studentTwoAttempts =
     \<lparr>student_id = 1, firstName = ''Ana'', lastName = ''Cruz'', middleName = None,
      examCompletions =
        [\<lparr>ec_score = 70, ec_submittedAt = 36000000, ec_exam = exam1\<rparr>,
         \<lparr>ec_score = 90, ec_submittedAt = 39600000, ec_exam = exam1\<rparr>],
      activityCompletions = []\<rparr>"

text \<open>
  A student with one completion in each of the three levels of a time activity: 10, 20 and
  30 seconds, each with a score of 5. A second student has the first two of them only.
\<close>

definition studentThreeTiers :: StudentUserAccount where
  "studentThreeTiers =
     \<lparr>student_id = 1, firstName = ''Ana'', lastName = ''Cruz'', middleName = None,
      examCompletions = [],
      activityCompletions =
        [mkCompletion (mkCategory Time 1 1 0) 1 5 10 100,
         mkCompletion (mkCategory Time 2 2 0) 1 5 20 101,
         mkCompletion (mkCategory Time 3 3 0) 1 5 30 102]\<rparr>"

text \<open>The same three completions with a score of 0.\<close>

definition studentThreeTiersNoScore :: StudentUserAccount where
  "studentThreeTiersNoScore =
     \<lparr>student_id = 3, firstName = ''Cara'', lastName = ''Cruz'', middleName = None,
      examCompletions = [],
      activityCompletions =
        [mkCompletion (mkCategory Time 1 1 0) 3 0 10 100,
         mkCompletion (mkCategory Time 2 2 0) 3 0 20 101,
         mkCompletion (mkCategory Time 3 3 0) 3 0 30 102]\<rparr>"

definition studentTwoTiers :: StudentUserAccount where
  "studentTwoTiers =
     \<lparr>student_id = 2, firstName = ''Ben'', lastName = ''Cruz'', middleName = None,
      examCompletions = [],
      activityCompletions =
        [mkCompletion (mkCategory Time 1 1 0) 2 5 10 100,
         mkCompletion (mkCategory Time 2 2 0) 2 5 20 101]\<rparr>"

text \<open>An activity whose categories are stored oldest first.\<close>

definition activityOldestFirst :: Activity where
  "activityOldestFirst =
     \<lparr>act_id = 3, act_game_type = Point,
      categories = [mkCategory Point 21 1 5, mkCategory Point 22 2 9]\<rparr>"

text \<open>
  The completion table \<open>dbTime\<close> with three more attempts, all at level 1, by student 4.
\<close>

definition dbTimeRepeated :: "ActivityCategoryCompletion list" where
  "dbTimeRepeated =
     dbTime @
     [mkCompletion (mkCategory Time 1 1 0) 4 0 9 108,
      mkCompletion (mkCategory Time 1 1 0) 4 0 7 109,
      mkCompletion (mkCategory Time 1 1 0) 4 0 8 110]"

text \<open>Student 2 alone, and student 4 (without completions) before student 2.\<close>

definition rosterBen :: "StudentUserAccount list" where
  "rosterBen = [mkStudent 2 ''Ben'' ''Cruz'' 90]"

definition rosterDanBen :: "StudentUserAccount list" where
  "rosterDanBen = [noCompletions 4 ''Dan'' ''Cruz'', mkStudent 2 ''Ben'' ''Cruz'' 90]"

section \<open>Auxiliary facts\<close>

subsection \<open>Sorting with a comparator\<close>

lemma insert_cmp_diff: "insert_cmp (\<lambda>a b. f a - f b) x ys = insort_key (f :: 'a \<Rightarrow> 'n::linordered_idom) x ys"
  by (induction ys) auto

lemma sort_cmp_diff: "sort_cmp (\<lambda>a b. f a - f b) xs = sort_key (f :: 'a \<Rightarrow> 'n::linordered_idom) xs"
  by (induction xs) (auto simp: sort_cmp_def insert_cmp_diff)

lemma sort_cmp_diff_desc:
  "sort_cmp (\<lambda>a b. f b - f a) xs = sort_key (\<lambda>x. - (f :: 'a \<Rightarrow> 'n::linordered_idom) x) xs"
  using sort_cmp_diff [of "\<lambda>x. - f x" xs] by simp

lemma insert_cmp_locale:
  "insert_cmp (\<lambda>a b. localeCompare collate (g a) (g b)) x ys = insort_key (\<lambda>a. collate (g a)) x ys"
  by (induction ys) (auto simp: localeCompare_def)

lemma sort_cmp_locale:
  "sort_cmp (\<lambda>a b. localeCompare collate (g a) (g b)) xs = sort_key (\<lambda>a. collate (g a)) xs"
  by (induction xs) (auto simp: sort_cmp_def insert_cmp_locale)

subsection \<open>First element per key\<close>

lemma findIndex_ge: "- 1 \<le> findIndex p xs"
  by (induction xs) (auto simp: Let_def)

lemma findIndex_neg_iff: "findIndex p xs < 0 \<longleftrightarrow> (\<forall>x\<in>set xs. \<not> p x)"
  using findIndex_ge [of p] by (induction xs) (auto simp: Let_def)

lemma findIndex_append_hit:
  "p x \<Longrightarrow> findIndex p (pre @ x # rest) = int (length pre) \<longleftrightarrow> (\<forall>y\<in>set pre. \<not> p y)"
proof (induction pre)
  case Nil
  then show ?case by simp
next
  case (Cons a pre)
  have "\<not> findIndex p (pre @ x # rest) < 0"
    using Cons.prems by (simp add: findIndex_neg_iff)
  with Cons show ?case by (auto simp: Let_def)
qed

lemma filter_from_firsts:
  "filter_from (length pre)
     (\<lambda>x index array. findIndex (\<lambda>item. key item = key x) array = int index) (pre @ rest) rest
   = firstsAcc key (key ` set pre) rest"
proof (induction rest arbitrary: pre)
  case Nil
  then show ?case by simp
next
  case (Cons x rest)
  have hit: "findIndex (\<lambda>item. key item = key x) (pre @ x # rest) = int (length pre)
      \<longleftrightarrow> key x \<notin> key ` set pre"
    using findIndex_append_hit [of "\<lambda>item. key item = key x" x pre rest]
    by (simp add: image_iff) metis
  have step: "filter_from (Suc (length pre))
     (\<lambda>x index array. findIndex (\<lambda>item. key item = key x) array = int index) (pre @ x # rest) rest
   = firstsAcc key (key ` set (pre @ [x])) rest"
    using Cons.IH [of "pre @ [x]"] by simp
  show ?case using hit step by (simp add: insert_absorb)
qed

lemma firstPerKey_firsts: "firstPerKey key xs = firstsAcc key {} xs"
  using filter_from_firsts [of "[]" key xs] by (simp add: firstPerKey_def filter_indexed_def)


lemma set_firstsAcc: "set (firstsAcc key seen xs) \<subseteq> set xs"
  by (induction xs arbitrary: seen) auto

lemma keys_firstsAcc: "key ` set (firstsAcc key seen xs) = key ` set xs - seen"
  by (induction xs arbitrary: seen) auto

lemma distinct_firstsAcc: "distinct (map key (firstsAcc key seen xs))"
  by (induction xs arbitrary: seen) (auto simp: keys_firstsAcc)

lemma firstsAcc_notin_seen: "x \<in> set (firstsAcc key seen xs) \<Longrightarrow> key x \<notin> seen"
  using keys_firstsAcc [of key seen xs] by blast

lemma firstsAcc_find:
  "x \<in> set (firstsAcc key seen xs) \<Longrightarrow> find (\<lambda>y. key y = key x) xs = Some x"
proof (induction xs arbitrary: seen)
  case Nil
  then show ?case by simp
next
  case (Cons a xs)
  show ?case
  proof (cases "key a = key x")
    case True
    then show ?thesis
      using Cons.prems firstsAcc_notin_seen [of x key seen xs]
        firstsAcc_notin_seen [of x key "insert (key a) seen" xs]
      by (auto split: if_splits)
  next
    case False
    then show ?thesis using Cons by (auto split: if_splits)
  qed
qed

lemma firstsAcc_Nil_iff: "firstsAcc key {} xs = [] \<longleftrightarrow> xs = []"
  by (cases xs) auto

subsection \<open>The rank callback\<close>

lemma length_rankMap: "length (rankMap sc p c i ss) = length ss"
  by (induction ss arbitrary: p c i) (auto simp: Let_def)

lemma map_fst_rankMap: "map fst (rankMap sc p c i ss) = ss"
  by (induction ss arbitrary: p c i) (auto simp: Let_def)

lemma rankMap_hd:
  "ss \<noteq> [] \<Longrightarrow> snd (rankMap sc p c i ss ! 0) = (if sc (ss ! 0) \<noteq> p then Some (i + 1) else c)"
  by (cases ss) (auto simp: Let_def)

lemma rankMap_step:
  "Suc k < length ss \<Longrightarrow>
   snd (rankMap sc p c i ss ! Suc k) =
     (if sc (ss ! Suc k) \<noteq> sc (ss ! k) then Some (i + Suc k + 1)
      else snd (rankMap sc p c i ss ! k))"
proof (induction ss arbitrary: p c i k)
  case Nil
  then show ?case by simp
next
  case (Cons s ss)
  show ?case
  proof (cases k)
    case 0
    then show ?thesis using Cons.prems rankMap_hd [of ss sc "sc s" _ "i + 1"]
      by (auto simp: Let_def)
  next
    case (Suc j)
    then show ?thesis using Cons.prems Cons.IH [of j "sc s" _ "i + 1"]
      by (auto simp: Let_def)
  qed
qed

lemma filter_greater_sorted_desc:
  assumes "sorted (map (\<lambda>x. - f x) ss)" "Suc k < length ss" "f (ss ! Suc k) \<noteq> f (ss ! k)"
  shows "filter (\<lambda>t. f (ss ! Suc k) < (f t :: 'n::linordered_idom)) ss = take (Suc k) ss"
proof -
  have mono: "\<And>i j. i \<le> j \<Longrightarrow> j < length ss \<Longrightarrow> f (ss ! j) \<le> f (ss ! i)"
    using assms(1) by (auto simp: sorted_iff_nth_mono)
  have lt: "f (ss ! Suc k) < f (ss ! k)"
    using mono [of k "Suc k"] assms(2,3) by simp
  have a: "\<forall>t\<in>set (take (Suc k) ss). f (ss ! Suc k) < f t"
  proof
    fix t assume "t \<in> set (take (Suc k) ss)"
    then obtain i where "i < Suc k" "t = ss ! i"
      using assms(2) by (auto simp: in_set_conv_nth)
    then show "f (ss ! Suc k) < f t" using mono [of i k] lt assms(2) by auto
  qed
  have b: "\<forall>t\<in>set (drop (Suc k) ss). \<not> f (ss ! Suc k) < f t"
  proof
    fix t assume "t \<in> set (drop (Suc k) ss)"
    then obtain i where "i < length ss - Suc k" "t = ss ! (Suc k + i)"
      by (auto simp: in_set_conv_nth)
    then show "\<not> f (ss ! Suc k) < f t" using mono [of "Suc k" "Suc k + i"] by fastforce
  qed
  have "filter (\<lambda>t. f (ss ! Suc k) < f t) (take (Suc k) ss @ drop (Suc k) ss) = take (Suc k) ss"
    unfolding filter_append using a b by (simp add: filter_empty_conv)
  then show ?thesis by simp
qed

lemma filter_greater_sorted_desc_0:
  assumes "sorted (map (\<lambda>x. - f x) ss)" "ss \<noteq> []"
  shows "filter (\<lambda>t. f (ss ! 0) < (f t :: 'n::linordered_idom)) ss = []"
proof -
  have "\<And>j. j < length ss \<Longrightarrow> f (ss ! j) \<le> f (ss ! 0)"
    using assms(1) by (auto simp: sorted_iff_nth_mono)
  then show ?thesis by (fastforce simp: filter_empty_conv in_set_conv_nth)
qed

lemma rankMap_competition:
  assumes "sorted (map (\<lambda>x. - toNumber (sc x)) ss)" "\<forall>s\<in>set ss. sc s \<noteq> None" "k < length ss"
  shows "snd (rankMap sc None None 0 ss ! k) =
           Some (Suc (length (filter (\<lambda>t. toNumber (sc (ss ! k)) < toNumber (sc t)) ss)))"
  using assms(3)
proof (induction k)
  case 0
  then have "ss \<noteq> []" by auto
  then show ?case
    using rankMap_hd [of ss sc None None 0] assms(2)
      filter_greater_sorted_desc_0 [OF assms(1)] by simp
next
  case (Suc k)
  show ?case
  proof (cases "sc (ss ! Suc k) = sc (ss ! k)")
    case True
    then show ?thesis using Suc rankMap_step [of k ss sc None None 0] by simp
  next
    case False
    have "ss ! k \<in> set ss" "ss ! Suc k \<in> set ss" using Suc.prems by auto
    then obtain a b where "sc (ss ! k) = Some a" "sc (ss ! Suc k) = Some b"
      using assms(2) by fastforce
    then have "toNumber (sc (ss ! Suc k)) \<noteq> toNumber (sc (ss ! k))" using False by simp
    from filter_greater_sorted_desc [of "\<lambda>x. toNumber (sc x)", OF assms(1) Suc.prems this]
    show ?thesis using False Suc.prems rankMap_step [of k ss sc None None 0] by simp
  qed
qed

lemma sorted_desc_wrt:
  "sorted (map (\<lambda>x. - f x) ss) \<Longrightarrow> sorted_wrt (\<lambda>a b. (f b :: 'n::linordered_idom) \<le> f a) ss"
  by (simp add: sorted_map) 

lemma rankMap_competition_ranked:
  fixes upd :: "'a \<Rightarrow> nat option \<Rightarrow> 'b"
  assumes srt: "sorted (map (\<lambda>x. - toNumber (sc x)) S)"
    and some: "\<forall>s\<in>set S. sc s \<noteq> None"
    and sc': "\<And>s r. sc' (upd s r) = sc s"
    and rk': "\<And>s r. rk' (upd s r) = r"
  shows "competition_ranked sc' rk' (map (\<lambda>(s, r). upd s r) (rankMap sc None None 0 S))"
proof -
  let ?M = "rankMap sc None None 0 S"
  let ?R = "map (\<lambda>(s, r). upd s r) ?M"
  have len: "length ?R = length S" by (simp add: length_rankMap)
  have fstM: "\<And>k. k < length S \<Longrightarrow> fst (?M ! k) = S ! k"
    using map_fst_rankMap [of sc None None 0 S] length_rankMap [of sc None None 0 S]
    by (metis nth_map)
  have scR: "\<And>k. k < length S \<Longrightarrow> sc' (?R ! k) = sc (S ! k)"
    using fstM by (simp add: length_rankMap case_prod_beta sc')
  have rkR: "\<And>k. k < length S \<Longrightarrow> rk' (?R ! k) = snd (?M ! k)"
    by (simp add: length_rankMap case_prod_beta rk')
  have mapsc: "map sc' ?R = map sc S"
    using len scR by (intro nth_equalityI) auto
  have c1: "\<forall>s\<in>set ?R. sc' s \<noteq> None"
    using some scR len by (metis in_set_conv_nth nth_mem)
  have "sorted_wrt (\<lambda>a b. toNumber (sc b) \<le> toNumber (sc a)) S"
    using srt by (rule sorted_desc_wrt)
  then have "sorted_wrt (\<lambda>a b. toNumber b \<le> toNumber a) (map sc S)"
    by (simp add: sorted_wrt_map)
  then have c2: "sorted_wrt (\<lambda>a b. toNumber (sc' b) \<le> toNumber (sc' a)) ?R"
    unfolding mapsc [symmetric] by (simp only: sorted_wrt_map)
  have c3: "\<forall>k<length ?R. k = 0 \<longrightarrow> rk' (?R ! k) = Some 1"
    using rankMap_hd [of S sc None None 0] some rkR len
    by (metis add_0 length_greater_0_conv nth_mem)
  have c4: "\<forall>k<length ?R. Suc k < length ?R \<longrightarrow>
        (if sc' (?R ! Suc k) = sc' (?R ! k) then rk' (?R ! Suc k) = rk' (?R ! k)
         else rk' (?R ! Suc k) = Some (Suc k + 1))"
    using rankMap_step [of _ S sc None None 0] scR rkR len by auto
  have flt: "\<And>v. length (filter (\<lambda>t. v < toNumber (sc' t)) ?R)
      = length (filter (\<lambda>t. v < toNumber (sc t)) S)"
  proof -
    fix v
    have "length (filter (\<lambda>t. v < toNumber (sc' t)) ?R)
        = length (filter (\<lambda>t. v < toNumber t) (map sc' ?R))"
      by (simp only: filter_map length_map comp_def)
    also have "\<dots> = length (filter (\<lambda>t. v < toNumber (sc t)) S)"
      unfolding mapsc by (simp only: filter_map length_map comp_def)
    finally show "length (filter (\<lambda>t. v < toNumber (sc' t)) ?R)
      = length (filter (\<lambda>t. v < toNumber (sc t)) S)" .
  qed
  have c5: "\<forall>k<length ?R.
        rk' (?R ! k) = Some (Suc (length (filter (\<lambda>t. toNumber (sc' (?R ! k)) < toNumber (sc' t)) ?R)))"
    using rankMap_competition [OF srt some] scR rkR len flt by auto
  show ?thesis
    unfolding competition_ranked_def using c1 c2 c3 c4 c5 by blast
qed

subsection \<open>Per-activity student data and its ranking\<close>

lemma find_completions_Nil: "find_completions db [] sid = []"
  by (simp add: find_completions_def)

lemma studentDatum_Inr:
  assumes "cats = [] \<Longrightarrow> tcs = []"
  shows "\<exists>d. studentDatum gt cats tcs sid = Inr d \<and> sd_studentId d = sid"
proof (cases gt)
  case Point
  then show ?thesis by (simp add: studentDatum_def Let_def)
next
  case Time
  then show ?thesis by (simp add: studentDatum_def Let_def)
next
  case Stage
  show ?thesis
  proof (cases cats)
    case Nil
    then show ?thesis using assms Stage
      by (simp add: studentDatum_def filterTargetCategory_def Let_def)
  next
    case (Cons c cs)
    then show ?thesis using Stage
      by (simp add: studentDatum_def filterTargetCategory_def Let_def)
  qed
qed

lemma promise_all_map_Inr:
  "\<forall>x\<in>set xs. \<exists>y. f x = Inr y \<Longrightarrow> promise_all (map f xs) = Inr (map (\<lambda>x. projr (f x)) xs)"
  by (induction xs) auto

lemma studentDataOf_Inr:
  "\<exists>ds. studentDataOf db students a = Inr ds \<and> map sd_studentId ds = map student_id students"
proof -
  let ?cats = "firstPerKey level (categories a)"
  let ?f = "\<lambda>student. studentDatum (act_game_type a) ?cats
                     (find_completions db (map cat_id ?cats) (student_id student)) (student_id student)"
  have ok: "\<And>s. \<exists>d. ?f s = Inr d \<and> sd_studentId d = student_id s"
    by (rule studentDatum_Inr) (simp add: find_completions_Nil)
  then have "promise_all (map ?f students) = Inr (map (\<lambda>x. projr (?f x)) students)"
    by (intro promise_all_map_Inr) blast
  moreover have "map sd_studentId (map (\<lambda>x. projr (?f x)) students) = map student_id students"
  proof -
    have h: "\<And>s. sd_studentId (projr (?f s)) = student_id s"
      using ok by (metis sum.sel(2))
    have "map (sd_studentId \<circ> (\<lambda>x. projr (?f x))) students = map student_id students"
      by (rule map_cong [OF refl]) (simp only: comp_apply h)
    then show ?thesis by (simp only: map_map)
  qed
  ultimately show ?thesis unfolding studentDataOf_def Let_def by blast
qed

lemma length_withRank: "length (withRank xs) = length xs"
  by (simp add: withRank_def)

lemma nth_withRank: "i < length xs \<Longrightarrow> withRank xs ! i = \<lparr>rd_data = xs ! i, rank = Some (i + 1)\<rparr>"
  by (simp add: withRank_def nth_enumerate_eq)

lemma map_rd_data_withRank: "map rd_data (withRank xs) = xs"
  by (intro nth_equalityI) (simp_all add: length_withRank nth_withRank)

lemma map_rd_data_withoutRank: "map rd_data (withoutRank xs) = xs"
  by (simp add: withoutRank_def comp_def)

lemma length_withoutRank: "length (withoutRank xs) = length xs"
  by (simp add: withoutRank_def)

lemma nth_withoutRank: "i < length xs \<Longrightarrow> rank (withoutRank xs ! i) = None"
  by (simp add: withoutRank_def)

lemma rankStudentData_eq:
  "rankStudentData gt ds =
     withRank (sort_key (rankKey gt) (filter (eligible gt) ds))
     @ withoutRank (filter (\<lambda>d. \<not> eligible gt d) ds)"
proof (cases gt)
  case Point
  then show ?thesis
    by (simp add: rankStudentData_def sort_cmp_diff_desc eligible_def [abs_def] rankKey_def [abs_def])
next
  case Time
  then show ?thesis
    by (simp add: rankStudentData_def sort_cmp_diff eligible_def [abs_def] rankKey_def [abs_def]
        not_le)
next
  case Stage
  then show ?thesis
    by (simp add: rankStudentData_def sort_cmp_diff_desc eligible_def [abs_def] rankKey_def [abs_def])
qed

lemma length_rankStudentData: "length (rankStudentData gt ds) = length ds"
  by (simp add: rankStudentData_eq length_withRank length_withoutRank sum_length_filter_compl)

lemma rankStudentData_sequential: "sequentially_ranked gt ds (rankStudentData gt ds)"
proof -
  let ?E = "filter (eligible gt) ds"
  let ?S = "sort_key (rankKey gt) ?E"
  let ?U = "filter (\<lambda>d. \<not> eligible gt d) ds"
  let ?out = "rankStudentData gt ds"
  have out: "?out = withRank ?S @ withoutRank ?U" by (rule rankStudentData_eq)
  have lenS: "length (withRank ?S) = length ?E" by (simp add: length_withRank)
  have tk: "take (length ?E) ?out = withRank ?S" using out lenS by simp
  have c1: "length ?out = length ds" by (rule length_rankStudentData)
  have c2: "\<forall>i<length ?out. rank (?out ! i) = (if i < length ?E then Some (i + 1) else None)"
  proof (intro allI impI)
    fix i assume i: "i < length ?out"
    show "rank (?out ! i) = (if i < length ?E then Some (i + 1) else None)"
    proof (cases "i < length ?E")
      case True
      then show ?thesis using out lenS by (simp add: nth_append nth_withRank)
    next
      case False
      then have "i - length ?E < length ?U"
        using i out lenS by (simp add: length_withoutRank)
      then show ?thesis using False out lenS by (simp add: nth_append nth_withoutRank)
    qed
  qed
  have "sorted (map (rankKey gt) ?S)" by simp
  then have c3: "sorted_wrt (\<lambda>a b. if gt = Time then toNumber (sd_score a) \<le> toNumber (sd_score b)
                            else toNumber (sd_score b) \<le> toNumber (sd_score a))
           (map rd_data (take (length ?E) ?out))"
    unfolding tk map_rd_data_withRank
    by (cases "gt = Time") (simp_all add: sorted_map rankKey_def [abs_def])
  have c4: "\<forall>d\<in>set ds. filter (\<lambda>x. sd_score x = sd_score d) (map rd_data (take (length ?E) ?out))
                       = filter (\<lambda>x. sd_score x = sd_score d) ?E"
  proof
    fix d
    have "filter (\<lambda>x. sd_score x = sd_score d) ?S
        = filter (\<lambda>x. sd_score x = sd_score d) (filter (\<lambda>x. rankKey gt x = rankKey gt d) ?S)"
      by (auto simp: rankKey_def intro: filter_cong)
    also have "\<dots> = filter (\<lambda>x. sd_score x = sd_score d) (filter (\<lambda>x. rankKey gt x = rankKey gt d) ?E)"
      by (simp only: sort_key_stable)
    also have "\<dots> = filter (\<lambda>x. sd_score x = sd_score d) ?E"
      by (auto simp: rankKey_def intro: filter_cong)
    finally show "filter (\<lambda>x. sd_score x = sd_score d) (map rd_data (take (length ?E) ?out))
                       = filter (\<lambda>x. sd_score x = sd_score d) ?E"
      unfolding tk map_rd_data_withRank .
  qed
  show ?thesis unfolding sequentially_ranked_def Let_def using c1 c2 c3 c4 by blast
qed

lemma generateActivityRankings_fst:
  "studentDataOf db students (sortCategories a) = Inr ds \<Longrightarrow>
   fst (generateActivityRankings db students a) = Inr (rankStudentData (act_game_type a) ds)"
  by (simp add: generateActivityRankings_def Let_def sortCategories_def)

subsection \<open>Ranked and unranked entries\<close>

lemma set_withRank: "e \<in> set (withRank xs) \<Longrightarrow> rank e \<noteq> None \<and> rd_data e \<in> set xs"
  by (auto simp: in_set_conv_nth length_withRank nth_withRank)

lemma set_withoutRank: "e \<in> set (withoutRank xs) \<Longrightarrow> rank e = None \<and> rd_data e \<in> set xs"
  by (auto simp: withoutRank_def)

lemma rank_rankStudentData:
  "e \<in> set (rankStudentData gt ds) \<Longrightarrow> (rank e = None) = (\<not> eligible gt (rd_data e))"
  unfolding rankStudentData_eq using set_withRank [of e] set_withoutRank [of e]
  by fastforce

lemma mset_rankStudentData: "mset (map rd_data (rankStudentData gt ds)) = mset ds"
  by (simp add: rankStudentData_eq map_rd_data_withRank map_rd_data_withoutRank)

lemma rank_None_suffix:
  assumes "sequentially_ranked gt ds out" "i < length out" "j < length out" "i \<le> j"
    "rank (out ! i) = None"
  shows "rank (out ! j) = None"
  using assms unfolding sequentially_ranked_def Let_def
  by (metis leD le_less_trans option.distinct(1))

subsection \<open>Activities without categories\<close>

lemma studentDatum_Nil:
  "studentDatum gt [] [] sid = Inr \<lparr>sd_studentId = sid, sd_score = None, sd_completions = []\<rparr>"
  by (cases gt)
    (simp_all add: studentDatum_def pointCompletions_def timeCompletions_def
      filterTargetCategory_def sortByScoreDesc_def sortByTime_def sort_cmp_def Let_def)

lemma firstPerKey_Nil_iff: "firstPerKey key xs = [] \<longleftrightarrow> xs = []"
  by (simp add: firstPerKey_firsts firstsAcc_Nil_iff)

lemma studentDataOf_no_categories:
  assumes "firstPerKey level (categories a) = []"
  shows "studentDataOf db students a =
           Inr (map (\<lambda>s. \<lparr>sd_studentId = student_id s, sd_score = None, sd_completions = []\<rparr>) students)"
proof -
  have "promise_all (map (\<lambda>s. studentDatum (act_game_type a) [] [] (student_id s)) students)
      = Inr (map (\<lambda>s. projr (studentDatum (act_game_type a) [] [] (student_id s))) students)"
    by (intro promise_all_map_Inr) (simp add: studentDatum_Nil)
  then show ?thesis
    using assms by (simp add: studentDataOf_def Let_def find_completions_Nil studentDatum_Nil)
qed

lemma hasLength_False: "truthy (completionsLength c) = False"
  by (cases c) simp_all

lemma generateActivityWithCompletions_score:
  assumes "firstPerKey level (categories (sortCategories a)) = []"
  shows "\<exists>r. fst (generateActivityWithCompletions db a sid) = Inr r \<and> awc_score r = None"
  using assms
  by (cases "act_game_type (sortCategories a)")
    (simp_all add: generateActivityWithCompletions_def Let_def find_completions_Nil
      filterTargetCategory_def reduceCatWithCompletions_def sort_cmp_def)

subsection \<open>The overall rankings as partitions of the roster\<close>

lemma map_rankMap_upd:
  assumes "\<And>s r. g (upd s r) = h s"
  shows "map g (map (\<lambda>(s, r). upd s r) (rankMap sc p c i S)) = map h S"
proof -
  have "map g (map (\<lambda>(s, r). upd s r) (rankMap sc p c i S)) = map h (map fst (rankMap sc p c i S))"
    by (simp add: case_prod_beta assms)
  then show ?thesis by (simp only: map_fst_rankMap)
qed

lemma student_id_sortExamCompletions [simp]: "student_id (sortExamCompletions s) = student_id s"
  by (simp add: sortExamCompletions_def)

lemma student_id_sortActivityCompletions [simp]:
  "student_id (sortActivityCompletions s) = student_id s"
  by (simp add: sortActivityCompletions_def)

lemma es_student_transform: "es_student (transformExamStudent s) = sortExamCompletions s"
  by (simp add: transformExamStudent_def Let_def)

lemma as_student_transform: "as_student (transformActivityStudent s) = sortActivityCompletions s"
  by (simp add: transformActivityStudent_def Let_def)

lemma mset_partition_map:
  "mset (map g (sort_key k (filter P xs))) + mset (map g (sort_key k' (filter (\<lambda>x. \<not> P x) xs)))
     = mset (map g xs)"
proof -
  have "mset (sort_key k (filter P xs)) + mset (sort_key k' (filter (\<lambda>x. \<not> P x) xs)) = mset xs"
    by simp
  then have "image_mset g (mset (sort_key k (filter P xs)) + mset (sort_key k' (filter (\<lambda>x. \<not> P x) xs)))
     = image_mset g (mset xs)" by (rule arg_cong)
  then show ?thesis by (simp only: mset_map image_mset_union)
qed

lemma exam_rankings_students:
  fixes collate :: "string \<Rightarrow> 'k::linorder"
  shows "mset (map es_student (rankedExamStudents (fst (generateOverallExamRankings collate students))
                   @ unrankedExamStudents (fst (generateOverallExamRankings collate students))))
       = mset (map sortExamCompletions students)"
proof -
  let ?T = "map transformExamStudent students"
  let ?P = "\<lambda>s. overallExamScore s \<noteq> None"
  let ?S = "sort_key (\<lambda>x. - toNumber (overallExamScore x)) (filter ?P ?T)"
  let ?U = "sort_key (\<lambda>a. collate (fullName (es_student a))) (filter (\<lambda>s. \<not> ?P s) ?T)"
  have r: "map es_student (rankedExamStudents (fst (generateOverallExamRankings collate students)))
      = map es_student ?S"
    unfolding generateOverallExamRankings_def Let_def fst_conv ExamRankings.simps sort_cmp_diff_desc
    by (rule map_rankMap_upd) simp
  have u: "map es_student (unrankedExamStudents (fst (generateOverallExamRankings collate students)))
      = map es_student ?U"
    unfolding generateOverallExamRankings_def Let_def fst_conv ExamRankings.simps sort_cmp_locale
    by (simp add: comp_def)
  have "mset (map es_student ?S) + mset (map es_student ?U) = mset (map es_student ?T)"
    by (rule mset_partition_map)
  also have "map es_student ?T = map sortExamCompletions students"
    by (simp add: comp_def es_student_transform)
  finally show ?thesis by (simp only: map_append mset_append r u)
qed

lemma activity_rankings_students:
  fixes collate :: "string \<Rightarrow> 'k::linorder"
  shows "mset (map as_student (rankedActivityStudents (fst (generateOverallActivityRankings collate students))
                   @ unrankedActivityStudents (fst (generateOverallActivityRankings collate students))))
       = mset (map sortActivityCompletions students)"
proof -
  let ?T = "map transformActivityStudent students"
  let ?P = "\<lambda>s. overallActivityScore s \<noteq> None"
  let ?S = "sort_key (\<lambda>x. - toNumber (overallActivityScore x)) (filter ?P ?T)"
  let ?U = "sort_key (\<lambda>a. collate (fullName (as_student a))) (filter (\<lambda>s. \<not> ?P s) ?T)"
  have r: "map as_student (rankedActivityStudents (fst (generateOverallActivityRankings collate students)))
      = map as_student ?S"
    unfolding generateOverallActivityRankings_def Let_def fst_conv ActivityRankings.simps
      sort_cmp_diff_desc
    by (rule map_rankMap_upd) simp
  have u: "map as_student (unrankedActivityStudents (fst (generateOverallActivityRankings collate students)))
      = map as_student ?U"
    unfolding generateOverallActivityRankings_def Let_def fst_conv ActivityRankings.simps
      sort_cmp_locale
    by (simp add: comp_def)
  have "mset (map as_student ?S) + mset (map as_student ?U) = mset (map as_student ?T)"
    by (rule mset_partition_map)
  also have "map as_student ?T = map sortActivityCompletions students"
    by (simp add: comp_def as_student_transform)
  finally show ?thesis by (simp only: map_append mset_append r u)
qed

lemma mset_ids_from_students:
  assumes "mset (map g out) = mset (map h students)" "\<And>s. student_id (h s) = student_id s"
  shows "mset (map (\<lambda>e. student_id (g e)) out) = mset (map student_id students)"
proof -
  have "mset (map student_id (map g out)) = mset (map student_id (map h students))"
    using assms(1) by (metis mset_map)
  then show ?thesis by (simp add: comp_def assms(2))
qed

lemma unranked_exam_rank:
  fixes collate :: "string \<Rightarrow> 'k::linorder"
  shows "s \<in> set (unrankedExamStudents (fst (generateOverallExamRankings collate students)))
    \<Longrightarrow> overallExamRank s = None \<and> overallExamScore s = None"
  by (auto simp: generateOverallExamRankings_def Let_def sort_cmp_locale)

lemma unranked_activity_rank:
  fixes collate :: "string \<Rightarrow> 'k::linorder"
  shows "s \<in> set (unrankedActivityStudents (fst (generateOverallActivityRankings collate students)))
    \<Longrightarrow> overallActivityRank s = None \<and> overallActivityScore s = None"
  by (auto simp: generateOverallActivityRankings_def Let_def sort_cmp_locale)

lemma competition_ranked_Some:
  "competition_ranked sc rk R \<Longrightarrow> s \<in> set R \<Longrightarrow> rk s \<noteq> None \<and> sc s \<noteq> None"
  unfolding competition_ranked_def by (metis in_set_conv_nth option.distinct(1))

lemma ranked_exam_rank:
  fixes collate :: "string \<Rightarrow> 'k::linorder"
  shows "s \<in> set (rankedExamStudents (fst (generateOverallExamRankings collate students)))
    \<Longrightarrow> overallExamRank s \<noteq> None \<and> overallExamScore s \<noteq> None"
  unfolding generateOverallExamRankings_def Let_def fst_conv ExamRankings.simps sort_cmp_diff_desc
  by (rule competition_ranked_Some [OF rankMap_competition_ranked]) auto

lemma ranked_activity_rank:
  fixes collate :: "string \<Rightarrow> 'k::linorder"
  shows "s \<in> set (rankedActivityStudents (fst (generateOverallActivityRankings collate students)))
    \<Longrightarrow> overallActivityRank s \<noteq> None \<and> overallActivityScore s \<noteq> None"
  unfolding generateOverallActivityRankings_def Let_def fst_conv ActivityRankings.simps
    sort_cmp_diff_desc
  by (rule competition_ranked_Some [OF rankMap_competition_ranked]) auto

subsection \<open>Student ids of the outputs\<close>

lemma sequential_ids:
  "\<exists>out. fst (generateActivityRankings db students a) = Inr out
            \<and> length out = length students
            \<and> mset (map (\<lambda>e. sd_studentId (rd_data e)) out) = mset (map student_id students)"
proof -
  obtain ds where ds: "studentDataOf db students (sortCategories a) = Inr ds"
    and ids: "map sd_studentId ds = map student_id students"
    using studentDataOf_Inr by blast
  let ?out = "rankStudentData (act_game_type a) ds"
  have out: "fst (generateActivityRankings db students a) = Inr ?out"
    using generateActivityRankings_fst [OF ds] .
  have "length ds = length students" using ids by (metis length_map)
  then have len: "length ?out = length students" by (simp add: length_rankStudentData)
  have "mset (map sd_studentId (map rd_data ?out)) = mset (map sd_studentId ds)"
    using mset_rankStudentData [of "act_game_type a" ds] by (metis mset_map)
  then have "mset (map (\<lambda>e. sd_studentId (rd_data e)) ?out) = mset (map student_id students)"
    by (simp add: comp_def ids)
  then show ?thesis using out len by blast
qed

lemma exam_totality:
  fixes collate :: "string \<Rightarrow> 'k::linorder"
  shows "mset (map (\<lambda>s. student_id (es_student s))
                (rankedExamStudents (fst (generateOverallExamRankings collate students))
                 @ unrankedExamStudents (fst (generateOverallExamRankings collate students))))
         = mset (map student_id students)"
  by (rule mset_ids_from_students [OF exam_rankings_students]) simp

lemma activity_totality:
  fixes collate :: "string \<Rightarrow> 'k::linorder"
  shows "mset (map (\<lambda>s. student_id (as_student s))
                (rankedActivityStudents (fst (generateOverallActivityRankings collate students))
                 @ unrankedActivityStudents (fst (generateOverallActivityRankings collate students))))
         = mset (map student_id students)"
  by (rule mset_ids_from_students [OF activity_rankings_students]) simp

lemma mset_map_length: "mset (map f xs) = mset (map g ys) \<Longrightarrow> length xs = length ys"
  by (metis length_map size_mset)

lemma mset_map_distinct:
  "mset (map f xs) = mset (map g ys) \<Longrightarrow> distinct (map g ys) \<Longrightarrow> distinct (map f xs)"
  by (metis mset_eq_imp_distinct_iff)

subsection \<open>Order of the unranked students\<close>

lemma unranked_exam_sorted:
  fixes collate :: "string \<Rightarrow> 'k::linorder"
  shows "sorted (map (\<lambda>s. collate (fullName (es_student s)))
           (unrankedExamStudents (fst (generateOverallExamRankings collate students))))"
proof -
  let ?U = "sort_key (\<lambda>a. collate (fullName (es_student a)))
              (filter (\<lambda>s. overallExamScore s = None) (map transformExamStudent students))"
  have "map (\<lambda>s. collate (fullName (es_student s)))
           (unrankedExamStudents (fst (generateOverallExamRankings collate students)))
      = map (\<lambda>s. collate (fullName (es_student s))) ?U"
    unfolding generateOverallExamRankings_def Let_def fst_conv ExamRankings.simps sort_cmp_locale
    by (simp add: comp_def)
  then show ?thesis by (simp only: sorted_sort_key)
qed

lemma unranked_activity_sorted:
  fixes collate :: "string \<Rightarrow> 'k::linorder"
  shows "sorted (map (\<lambda>s. collate (fullName (as_student s)))
           (unrankedActivityStudents (fst (generateOverallActivityRankings collate students))))"
proof -
  let ?U = "sort_key (\<lambda>a. collate (fullName (as_student a)))
              (filter (\<lambda>s. overallActivityScore s = None) (map transformActivityStudent students))"
  have "map (\<lambda>s. collate (fullName (as_student s)))
           (unrankedActivityStudents (fst (generateOverallActivityRankings collate students)))
      = map (\<lambda>s. collate (fullName (as_student s))) ?U"
    unfolding generateOverallActivityRankings_def Let_def fst_conv ActivityRankings.simps
      sort_cmp_locale
    by (simp add: comp_def)
  then show ?thesis by (simp only: sorted_sort_key)
qed

lemma rankStudentData_unranked_part:
  "map rd_data (drop (length (filter (eligible gt) ds)) (rankStudentData gt ds))
     = filter (\<lambda>d. \<not> eligible gt d) ds"
  by (simp add: rankStudentData_eq length_withRank map_rd_data_withoutRank)

lemma rankStudentData_rank_None_iff:
  assumes "i < length (rankStudentData gt ds)"
  shows "(rank (rankStudentData gt ds ! i) = None) = (length (filter (eligible gt) ds) \<le> i)"
  using rankStudentData_sequential [of gt ds] assms
  unfolding sequentially_ranked_def Let_def by (simp add: not_less)

lemma rankStudentData_null_score:
  "e \<in> set (rankStudentData gt ds) \<Longrightarrow> sd_score (rd_data e) = None \<Longrightarrow> rank e = None"
  using rank_rankStudentData [of e gt ds] by (simp add: eligible_def)

subsection \<open>Canonical completions of point games\<close>

lemma foldl_take1:
  "foldl (\<lambda>total cat. case f cat of [] \<Rightarrow> total | c # _ \<Rightarrow> total @ [c]) acc cats
     = acc @ concat (map (\<lambda>cat. take 1 (f cat)) cats)"
proof (induction cats arbitrary: acc)
  case Nil
  then show ?case by simp
next
  case (Cons cat cats)
  then show ?case by (cases "f cat") simp_all
qed

lemma foldl_plus: "foldl (\<lambda>total com. total + f com) (a :: number) xs = a + sum_list (map f xs)"
  by (induction xs arbitrary: a) (simp_all add: add.assoc)

lemma sortByTime_eq: "sortByTime L = sort_key timeCompletedSeconds L"
  by (simp add: sortByTime_def sort_cmp_diff)

lemma sortByScoreDesc_eq: "sortByScoreDesc L = sort_key (\<lambda>c. - score c) L"
  by (simp add: sortByScoreDesc_def sort_cmp_diff_desc)

lemma sorted_key_hd_le:
  assumes "sorted (map f zs)" "x \<in> set zs"
  shows "f (hd zs) \<le> f x"
  using assms by (cases zs) auto

lemma best_point_canonical:
  assumes "L \<noteq> []"
  shows "canonical_point L (hd (sortByScoreDesc (sortByTime L)))"
proof -
  let ?g = "\<lambda>c. - score c"
  let ?ys = "sort_key timeCompletedSeconds L"
  let ?zs = "sort_key ?g ?ys"
  let ?c = "hd ?zs"
  have ne: "?zs \<noteq> []" using assms by (metis length_0_conv length_sort)
  then have cin: "?c \<in> set ?zs" by (rule hd_in_set)
  then have mem: "?c \<in> set L" by simp
  have max: "\<And>c'. c' \<in> set L \<Longrightarrow> score c' \<le> score ?c"
  proof -
    fix c' assume "c' \<in> set L"
    then have "c' \<in> set ?zs" by simp
    from sorted_key_hd_le [of ?g ?zs c', OF _ this] show "score c' \<le> score ?c" by simp
  qed
  have tie: "\<And>c'. c' \<in> set L \<Longrightarrow> score c' = score ?c
      \<Longrightarrow> timeCompletedSeconds ?c \<le> timeCompletedSeconds c'"
  proof -
    fix c' assume c': "c' \<in> set L" and eq: "score c' = score ?c"
    let ?F = "filter (\<lambda>y. ?g y = ?g ?c) ?ys"
    have st: "filter (\<lambda>y. ?g y = ?g ?c) ?zs = ?F" by (rule sort_key_stable)
    obtain rest where zs: "?zs = ?c # rest" using ne by (cases ?zs) auto
    have "filter (\<lambda>y. ?g y = ?g ?c) (?c # rest) = ?c # filter (\<lambda>y. ?g y = ?g ?c) rest" by simp
    then have hdF: "hd ?F = ?c" using st zs by (metis list.sel(1))
    have "sorted (map timeCompletedSeconds ?ys)" by simp
    then have srt: "sorted (map timeCompletedSeconds ?F)" by (rule sorted_filter)
    have "c' \<in> set ?F" using c' eq by simp
    from sorted_key_hd_le [OF srt this] show "timeCompletedSeconds ?c \<le> timeCompletedSeconds c'"
      unfolding hdF .
  qed
  show ?thesis
    unfolding canonical_point_def sortByTime_eq sortByScoreDesc_eq
    using mem max tie by blast
qed

lemma best_point_Nil_iff: "sortByScoreDesc (sortByTime L) = [] \<longleftrightarrow> L = []"
  unfolding sortByTime_eq sortByScoreDesc_eq by (metis length_0_conv length_sort)

lemma pointCompletions_eq:
  "pointCompletions cats tcs
     = concat (map (\<lambda>cat. take 1 (sortByScoreDesc (sortByTime (ofCategory tcs cat)))) cats)"
  unfolding pointCompletions_def ofCategory_def
  using foldl_take1 [of "\<lambda>cat. sortByScoreDesc (sortByTime
           (filter (\<lambda>com. cat_id (activityCategory com) = cat_id cat) tcs))" "[]" cats]
  by simp

lemma pointCompletions_canonical:
  "list_all2 (\<lambda>cat c. cat_id (activityCategory c) = cat_id cat
                  \<and> canonical_point (ofCategory tcs cat) c)
       (filter (\<lambda>cat. ofCategory tcs cat \<noteq> []) cats) (pointCompletions cats tcs)"
  unfolding pointCompletions_eq
proof (induction cats)
  case Nil
  then show ?case by simp
next
  case (Cons cat cats)
  let ?L = "ofCategory tcs cat"
  let ?B = "sortByScoreDesc (sortByTime ?L)"
  show ?case
  proof (cases "?L = []")
    case True
    then have "?B = []" by (simp add: best_point_Nil_iff)
    then show ?thesis using True Cons by simp
  next
    case False
    then have "?B \<noteq> []" by (simp add: best_point_Nil_iff)
    then have tk: "take 1 ?B = [hd ?B]" by (cases ?B) simp_all
    have can: "canonical_point ?L (hd ?B)" using False by (rule best_point_canonical)
    then have "hd ?B \<in> set ?L" by (simp add: canonical_point_def)
    then have "cat_id (activityCategory (hd ?B)) = cat_id cat" by (simp add: ofCategory_def)
    then show ?thesis using False Cons can tk by simp
  qed
qed

lemma studentDatum_point_scored:
  assumes "studentDatum Point cats tcs sid = Inr d"
  shows "point_scored cats tcs d \<and> sd_studentId d = sid"
proof -
  let ?cs = "pointCompletions cats tcs"
  have d: "d = \<lparr>sd_studentId = sid,
                sd_score = (if ?cs \<noteq> [] then Some (foldl (\<lambda>total com. total + score com) 0 ?cs)
                            else None),
                sd_completions = ?cs\<rparr>"
    using assms by (simp add: studentDatum_def Let_def)
  have all: "list_all2 (\<lambda>cat c. cat_id (activityCategory c) = cat_id cat
                  \<and> canonical_point (ofCategory tcs cat) c)
       (filter (\<lambda>cat. ofCategory tcs cat \<noteq> []) cats) ?cs"
    by (rule pointCompletions_canonical)
  then have "length (filter (\<lambda>cat. ofCategory tcs cat \<noteq> []) cats) = length ?cs"
    by (rule list_all2_lengthD)
  then have "(?cs = []) = (filter (\<lambda>cat. ofCategory tcs cat \<noteq> []) cats = [])"
    by (metis length_0_conv)
  then have nil: "(?cs = []) = (\<forall>cat\<in>set cats. ofCategory tcs cat = [])"
    by (simp add: filter_empty_conv)
  show ?thesis
    unfolding point_scored_def using all nil by (simp add: d foldl_plus)
qed

lemma promise_all_list_all2:
  "promise_all (map f xs) = Inr ys \<Longrightarrow> list_all2 (\<lambda>x y. f x = Inr y) xs ys"
proof (induction xs arbitrary: ys)
  case Nil
  then show ?case by simp
next
  case (Cons x xs)
  then show ?case
    by (cases "f x"; cases "promise_all (map f xs)") auto
qed

subsection \<open>Deduplicated exam completions and effects on the inputs\<close>

lemma find_first_sorted:
  "find P zs = Some c \<Longrightarrow> sorted (map f zs) \<Longrightarrow> c' \<in> set zs \<Longrightarrow> P c' \<Longrightarrow> f c \<le> f c'"
  by (induction zs) (auto split: if_splits)

lemma exam_ranking_dedup_keeps_latest:
  fixes s :: StudentUserAccount
  defines "F \<equiv> firstPerKey (\<lambda>c. exam_id (ec_exam c)) (examCompletions (sortExamCompletions s))"
  shows "distinct (map (\<lambda>c. exam_id (ec_exam c)) F)"
    and "set F \<subseteq> set (examCompletions s)"
    and "(\<lambda>c. exam_id (ec_exam c)) ` set F = (\<lambda>c. exam_id (ec_exam c)) ` set (examCompletions s)"
    and "\<And>c c'. c \<in> set F \<Longrightarrow> c' \<in> set (examCompletions s)
           \<Longrightarrow> exam_id (ec_exam c') = exam_id (ec_exam c)
           \<Longrightarrow> ec_submittedAt c' \<le> ec_submittedAt c"
proof -
  let ?key = "\<lambda>c. exam_id (ec_exam c)"
  let ?zs = "sort_key (\<lambda>c. - ec_submittedAt c) (examCompletions s)"
  have F: "F = firstsAcc ?key {} ?zs"
    unfolding F_def by (simp add: firstPerKey_firsts sortExamCompletions_def sort_cmp_diff_desc)
  show "distinct (map ?key F)" unfolding F by (rule distinct_firstsAcc)
  show "set F \<subseteq> set (examCompletions s)"
    unfolding F using set_firstsAcc [of ?key "{}" ?zs] by simp
  show "?key ` set F = ?key ` set (examCompletions s)"
    unfolding F by (simp add: keys_firstsAcc)
  fix c c'
  assume c: "c \<in> set F" and c': "c' \<in> set (examCompletions s)"
    and k: "exam_id (ec_exam c') = exam_id (ec_exam c)"
  have "find (\<lambda>y. ?key y = ?key c) ?zs = Some c"
    using c unfolding F by (rule firstsAcc_find)
  from find_first_sorted [OF this, of "\<lambda>c. - ec_submittedAt c" c'] c' k
  show "ec_submittedAt c' \<le> ec_submittedAt c" by simp
qed

lemma sortCategories_eq:
  "sortCategories a = a\<lparr>categories := sort_key (\<lambda>c. - updatedAt c) (categories a)\<rparr>"
  by (simp add: sortCategories_def sort_cmp_diff_desc)

lemma sortExamCompletions_eq:
  "sortExamCompletions s
     = s\<lparr>examCompletions := sort_key (\<lambda>c. - ec_submittedAt c) (examCompletions s)\<rparr>"
  by (simp add: sortExamCompletions_def sort_cmp_diff_desc)

lemma sortActivityCompletions_eq:
  "sortActivityCompletions s
     = s\<lparr>activityCompletions := sort_key (\<lambda>c. - submittedAt c) (activityCompletions s)\<rparr>"
  by (simp add: sortActivityCompletions_def sort_cmp_diff_desc)

lemma sort_key_idem: "sort_key f (sort_key f xs) = sort_key f xs"
  by (rule sort_key_id_if_sorted) simp

lemma sortActivityCompletions_idem:
  "sortActivityCompletions (sortActivityCompletions s) = sortActivityCompletions s"
  by (simp add: sortActivityCompletions_eq sort_key_idem)

lemma snd_generateActivityRankings: "snd (generateActivityRankings db students a) = sortCategories a"
  by (simp add: generateActivityRankings_def Let_def)

lemma snd_generateActivityWithCompletions:
  "snd (generateActivityWithCompletions db a sid) = sortCategories a"
  by (simp add: generateActivityWithCompletions_def Let_def)

lemma snd_generateOverallExamRankings:
  fixes collate :: "string \<Rightarrow> 'k::linorder"
  shows "snd (generateOverallExamRankings collate students) = map sortExamCompletions students"
  by (simp add: generateOverallExamRankings_def Let_def comp_def es_student_transform)

lemma snd_generateOverallActivityRankings:
  fixes collate :: "string \<Rightarrow> 'k::linorder"
  shows "snd (generateOverallActivityRankings collate students) = map sortActivityCompletions students"
  by (simp add: generateOverallActivityRankings_def Let_def comp_def as_student_transform)

lemma snd_generateOverallExamDetailedPerformance:
  fixes collate :: "string \<Rightarrow> 'k::linorder"
  shows "snd (generateOverallExamDetailedPerformance collate now allExams student others)
           = map sortExamCompletions (student # others)"
  unfolding generateOverallExamDetailedPerformance_def Let_def
  by (simp only: split_beta snd_conv snd_generateOverallExamRankings)

lemma snd_generateOverallActivityDetailedPerformance:
  fixes collate :: "string \<Rightarrow> 'k::linorder"
  shows "snd (generateOverallActivityDetailedPerformance collate allActivities student others)
           = map sortActivityCompletions (student # others)"
  unfolding generateOverallActivityDetailedPerformance_def Let_def
  by (simp only: split_beta snd_conv snd_generateOverallActivityRankings list.map
      sortActivityCompletions_idem)

subsection \<open>Canonical completions of time games\<close>

lemma best_time_canonical:
  assumes "L \<noteq> []"
  shows "canonical_time L (hd (sortByTime L))"
proof -
  let ?ys = "sort_key timeCompletedSeconds L"
  have ne: "?ys \<noteq> []" using assms by (metis length_0_conv length_sort)
  then have "hd ?ys \<in> set ?ys" by (rule hd_in_set)
  then have mem: "hd ?ys \<in> set L" by simp
  have min: "\<And>c'. c' \<in> set L \<Longrightarrow> timeCompletedSeconds (hd ?ys) \<le> timeCompletedSeconds c'"
  proof -
    fix c' assume "c' \<in> set L"
    then have "c' \<in> set ?ys" by simp
    from sorted_key_hd_le [of timeCompletedSeconds ?ys c', OF _ this]
    show "timeCompletedSeconds (hd ?ys) \<le> timeCompletedSeconds c'" by simp
  qed
  show ?thesis unfolding canonical_time_def sortByTime_eq using mem min by blast
qed

lemma best_time_Nil_iff: "sortByTime L = [] \<longleftrightarrow> L = []"
  unfolding sortByTime_eq by (metis length_0_conv length_sort)

lemma timeCompletions_eq:
  "timeCompletions cats tcs = concat (map (\<lambda>cat. take 1 (sortByTime (ofCategory tcs cat))) cats)"
  unfolding timeCompletions_def ofCategory_def
  using foldl_take1 [of "\<lambda>cat. sortByTime
           (filter (\<lambda>com. cat_id (activityCategory com) = cat_id cat) tcs)" "[]" cats]
  by simp

lemma timeCompletions_canonical:
  "list_all2 (\<lambda>cat c. cat_id (activityCategory c) = cat_id cat
                  \<and> canonical_time (ofCategory tcs cat) c)
       (filter (\<lambda>cat. ofCategory tcs cat \<noteq> []) cats) (timeCompletions cats tcs)"
  unfolding timeCompletions_eq
proof (induction cats)
  case Nil
  then show ?case by simp
next
  case (Cons cat cats)
  let ?L = "ofCategory tcs cat"
  let ?B = "sortByTime ?L"
  show ?case
  proof (cases "?L = []")
    case True
    then have "?B = []" by (simp add: best_time_Nil_iff)
    then show ?thesis using True Cons by simp
  next
    case False
    then have "?B \<noteq> []" by (simp add: best_time_Nil_iff)
    then have tk: "take 1 ?B = [hd ?B]" by (cases ?B) simp_all
    have can: "canonical_time ?L (hd ?B)" using False by (rule best_time_canonical)
    then have "hd ?B \<in> set ?L" by (simp add: canonical_time_def)
    then have "cat_id (activityCategory (hd ?B)) = cat_id cat" by (simp add: ofCategory_def)
    then show ?thesis using False Cons can tk by simp
  qed
qed

lemma studentDatum_time_scored:
  assumes "studentDatum Time cats tcs sid = Inr d"
  shows "time_scored cats tcs d \<and> sd_studentId d = sid"
proof -
  let ?cs = "timeCompletions cats tcs"
  have d: "d = \<lparr>sd_studentId = sid,
                sd_score = (if ?cs \<noteq> []
                            then Some (foldl (\<lambda>total com. total + timeCompletedSeconds com) 0 ?cs
                                       / of_nat (length ?cs))
                            else None),
                sd_completions = ?cs\<rparr>"
    using assms by (simp add: studentDatum_def Let_def)
  have all: "list_all2 (\<lambda>cat c. cat_id (activityCategory c) = cat_id cat
                  \<and> canonical_time (ofCategory tcs cat) c)
       (filter (\<lambda>cat. ofCategory tcs cat \<noteq> []) cats) ?cs"
    by (rule timeCompletions_canonical)
  then have len: "length (filter (\<lambda>cat. ofCategory tcs cat \<noteq> []) cats) = length ?cs"
    by (rule list_all2_lengthD)
  then have "(?cs = []) = (filter (\<lambda>cat. ofCategory tcs cat \<noteq> []) cats = [])"
    by (metis length_0_conv)
  then have nil: "(?cs = []) = (\<forall>cat\<in>set cats. ofCategory tcs cat = [])"
    by (simp add: filter_empty_conv)
  show ?thesis
    unfolding time_scored_def using all nil len by (simp add: d foldl_plus)
qed

lemma studentDataOf_time_scored:
  assumes "act_game_type a = Time" "studentDataOf db students a = Inr ds"
  shows "list_all2 (\<lambda>s d. sd_studentId d = student_id s \<and>
          time_scored (firstPerKey level (categories a))
            (find_completions db (map cat_id (firstPerKey level (categories a))) (student_id s))
            d)
         students ds"
proof -
  let ?cats = "firstPerKey level (categories a)"
  let ?f = "\<lambda>s. studentDatum Time ?cats
                  (find_completions db (map cat_id ?cats) (student_id s)) (student_id s)"
  have "promise_all (map ?f students) = Inr ds"
    using assms(2) unfolding studentDataOf_def Let_def assms(1) .
  then have "list_all2 (\<lambda>s d. ?f s = Inr d) students ds"
    by (rule promise_all_list_all2)
  then show ?thesis
    by (rule list_all2_mono) (use studentDatum_time_scored in blast)
qed

subsection \<open>Scores of the unranked entries\<close>

lemma act_game_type_sortCategories: "act_game_type (sortCategories a) = act_game_type a"
  by (simp add: sortCategories_def)

lemma rankStudentData_null_score_iff:
  assumes "gt \<noteq> Time" "i < length (rankStudentData gt ds)"
  shows "(sd_score (rd_data (rankStudentData gt ds ! i)) = None)
           = (length (filter (eligible gt) ds) \<le> i)"
proof -
  have "rankStudentData gt ds ! i \<in> set (rankStudentData gt ds)" using assms(2) by simp
  from rank_rankStudentData [OF this]
  have "(rank (rankStudentData gt ds ! i) = None)
          = (sd_score (rd_data (rankStudentData gt ds ! i)) = None)"
    using assms(1) by (simp add: eligible_def)
  then show ?thesis using rankStudentData_rank_None_iff [OF assms(2)] by simp
qed

subsection \<open>Scores in the two lists of an overall ranking\<close>

lemma exam_rankings_scores:
  fixes collate :: "string \<Rightarrow> 'k::linorder"
  shows "mset (map (\<lambda>s. (es_student s, overallExamScore s))
           (rankedExamStudents (fst (generateOverallExamRankings collate students))
            @ unrankedExamStudents (fst (generateOverallExamRankings collate students))))
       = mset (map (\<lambda>s. (sortExamCompletions s, overallExamScore (transformExamStudent s)))
                 students)"
proof -
  let ?g = "\<lambda>s. (es_student s, overallExamScore s)"
  let ?T = "map transformExamStudent students"
  let ?P = "\<lambda>s. overallExamScore s \<noteq> None"
  let ?S = "sort_key (\<lambda>x. - toNumber (overallExamScore x)) (filter ?P ?T)"
  let ?U = "sort_key (\<lambda>a. collate (fullName (es_student a))) (filter (\<lambda>s. \<not> ?P s) ?T)"
  have r: "map ?g (rankedExamStudents (fst (generateOverallExamRankings collate students)))
      = map ?g ?S"
    unfolding generateOverallExamRankings_def Let_def fst_conv ExamRankings.simps sort_cmp_diff_desc
    by (rule map_rankMap_upd) simp
  have u: "map ?g (unrankedExamStudents (fst (generateOverallExamRankings collate students)))
      = map ?g ?U"
    unfolding generateOverallExamRankings_def Let_def fst_conv ExamRankings.simps sort_cmp_locale
    by (simp add: comp_def)
  have "mset (map ?g ?S) + mset (map ?g ?U) = mset (map ?g ?T)"
    by (rule mset_partition_map)
  also have "map ?g ?T
      = map (\<lambda>s. (sortExamCompletions s, overallExamScore (transformExamStudent s))) students"
    by (simp add: comp_def es_student_transform)
  finally show ?thesis by (simp only: map_append mset_append r u)
qed

lemma activity_rankings_scores:
  fixes collate :: "string \<Rightarrow> 'k::linorder"
  shows "mset (map (\<lambda>s. (as_student s, overallActivityScore s))
           (rankedActivityStudents (fst (generateOverallActivityRankings collate students))
            @ unrankedActivityStudents (fst (generateOverallActivityRankings collate students))))
       = mset (map (\<lambda>s. (sortActivityCompletions s,
                           overallActivityScore (transformActivityStudent s)))
                 students)"
proof -
  let ?g = "\<lambda>s. (as_student s, overallActivityScore s)"
  let ?T = "map transformActivityStudent students"
  let ?P = "\<lambda>s. overallActivityScore s \<noteq> None"
  let ?S = "sort_key (\<lambda>x. - toNumber (overallActivityScore x)) (filter ?P ?T)"
  let ?U = "sort_key (\<lambda>a. collate (fullName (as_student a))) (filter (\<lambda>s. \<not> ?P s) ?T)"
  have r: "map ?g (rankedActivityStudents (fst (generateOverallActivityRankings collate students)))
      = map ?g ?S"
    unfolding generateOverallActivityRankings_def Let_def fst_conv ActivityRankings.simps
      sort_cmp_diff_desc
    by (rule map_rankMap_upd) simp
  have u: "map ?g (unrankedActivityStudents (fst (generateOverallActivityRankings collate students)))
      = map ?g ?U"
    unfolding generateOverallActivityRankings_def Let_def fst_conv ActivityRankings.simps
      sort_cmp_locale
    by (simp add: comp_def)
  have "mset (map ?g ?S) + mset (map ?g ?U) = mset (map ?g ?T)"
    by (rule mset_partition_map)
  also have "map ?g ?T
      = map (\<lambda>s. (sortActivityCompletions s,
                   overallActivityScore (transformActivityStudent s))) students"
    by (simp add: comp_def as_student_transform)
  finally show ?thesis by (simp only: map_append mset_append r u)
qed

section \<open>The claims\<close>

text \<open>
  C1. Both overall rankings (\<open>generateOverallExamRankings\<close> and
  \<open>generateOverallActivityRankings\<close>) rank under the competition policy: the ranked
  students are the scored ones in descending order of score, students with equal consecutive
  scores receive the same rank, and a student with the next distinct score receives the
  1-based position in the sorted order as rank.
\<close>

theorem overall_rankings_competition_policy:
  fixes collate :: "string \<Rightarrow> 'k::linorder"
  shows "competition_ranked overallExamScore overallExamRank
           (rankedExamStudents (fst (generateOverallExamRankings collate students)))
       \<and> competition_ranked overallActivityScore overallActivityRank
           (rankedActivityStudents (fst (generateOverallActivityRankings collate students)))"
proof
  show "competition_ranked overallExamScore overallExamRank
           (rankedExamStudents (fst (generateOverallExamRankings collate students)))"
    unfolding generateOverallExamRankings_def Let_def fst_conv ExamRankings.simps
      sort_cmp_diff_desc
    by (rule rankMap_competition_ranked) auto
  show "competition_ranked overallActivityScore overallActivityRank
           (rankedActivityStudents (fst (generateOverallActivityRankings collate students)))"
    unfolding generateOverallActivityRankings_def Let_def fst_conv ActivityRankings.simps
      sort_cmp_diff_desc
    by (rule rankMap_competition_ranked) auto
qed

text \<open>For the scores 90, 90 and 80 the ranks are 1, 1 and 3.\<close>

theorem overall_rankings_competition_policy_witness:
  "map (\<lambda>s. (student_id (es_student s), overallExamScore s, overallExamRank s))
     (rankedExamStudents (fst (generateOverallExamRankings (\<lambda>s :: string. s) roster3)))
     = [(1, Some 90, Some 1), (2, Some 90, Some 1), (3, Some 80, Some 3)]
   \<and> map (\<lambda>s. (student_id (as_student s), overallActivityScore s, overallActivityRank s))
     (rankedActivityStudents (fst (generateOverallActivityRankings (\<lambda>s :: string. s) roster3)))
     = [(1, Some 90, Some 1), (2, Some 90, Some 1), (3, Some 80, Some 3)]
   \<and> competition_ranked overallExamScore overallExamRank
       (rankedExamStudents (fst (generateOverallExamRankings (\<lambda>s :: string. s) roster3)))
   \<and> competition_ranked overallActivityScore overallActivityRank
       (rankedActivityStudents (fst (generateOverallActivityRankings (\<lambda>s :: string. s) roster3)))"
proof -
  have e: "map (\<lambda>s. (student_id (es_student s), overallExamScore s, overallExamRank s))
     (rankedExamStudents (fst (generateOverallExamRankings (\<lambda>s :: string. s) roster3)))
     = [(1, Some 90, Some 1), (2, Some 90, Some 1), (3, Some 80, Some 3)]"
    by code_simp
  have a: "map (\<lambda>s. (student_id (as_student s), overallActivityScore s, overallActivityRank s))
     (rankedActivityStudents (fst (generateOverallActivityRankings (\<lambda>s :: string. s) roster3)))
     = [(1, Some 90, Some 1), (2, Some 90, Some 1), (3, Some 80, Some 3)]"
    by code_simp
  show ?thesis
    using overall_rankings_competition_policy [of "\<lambda>s :: string. s" roster3] e a by blast
qed

text \<open>
  C2. The claim asks that under the sequential policy each scored student's rank is the
  1-based position after the sort, for time games too. For a time game
  \<open>generateActivityRankings\<close> ranks only the scored students with at least three
  completions: student 2, with an average of 5 seconds on two levels, is scored and has rank
  null.
\<close>

theorem scored_time_student_unranked_counterexample:
  "act_game_type timeActivity1 = Time
   \<and> fst (generateActivityRankings dbTime rosterBen timeActivity1) =
     Inr [\<lparr>rd_data = \<lparr>sd_studentId = 2, sd_score = Some 5,
                      sd_completions = [mkCompletion (mkCategory Time 1 1 0) 2 0 5 103,
                                        mkCompletion (mkCategory Time 2 2 0) 2 0 5 104]\<rparr>,
           rank = None\<rparr>]"
  by code_simp

text \<open>
  C2, as amended. \<open>generateActivityRankings\<close> always computes the per-student data (no
  error), one entry per student of the roster and in roster order. The ranked entries are the
  scored ones, for a time game the scored ones with at least three canonical completions
  (one per unique-level category in which the student has a completion); they come first,
  sorted by score, descending, and ascending for a time game; the rank of each is its 1-based
  position, with no sharing; ranked entries with equal scores stand in the order of the
  roster, which is the order the stable sort leaves them in; all other entries follow with
  rank null.
\<close>

theorem activity_rankings_sequential_policy:
  "\<exists>ds out. studentDataOf db students (sortCategories a) = Inr ds
     \<and> map sd_studentId ds = map student_id students
     \<and> fst (generateActivityRankings db students a) = Inr out
     \<and> sequentially_ranked (act_game_type a) ds out
     \<and> (act_game_type a = Time \<longrightarrow>
          list_all2 (\<lambda>s d. time_scored (firstPerKey level (categories (sortCategories a)))
              (find_completions db
                 (map cat_id (firstPerKey level (categories (sortCategories a)))) (student_id s))
              d)
            students ds)"
proof -
  obtain ds where ds: "studentDataOf db students (sortCategories a) = Inr ds"
    and ids: "map sd_studentId ds = map student_id students"
    using studentDataOf_Inr by blast
  have out: "fst (generateActivityRankings db students a)
      = Inr (rankStudentData (act_game_type a) ds)"
    using generateActivityRankings_fst [OF ds] .
  have sq: "sequentially_ranked (act_game_type a) ds (rankStudentData (act_game_type a) ds)"
    by (rule rankStudentData_sequential)
  have tm: "act_game_type a = Time \<longrightarrow>
          list_all2 (\<lambda>s d. time_scored (firstPerKey level (categories (sortCategories a)))
              (find_completions db
                 (map cat_id (firstPerKey level (categories (sortCategories a)))) (student_id s))
              d)
            students ds"
  proof
    assume "act_game_type a = Time"
    then have "act_game_type (sortCategories a) = Time"
      by (simp add: act_game_type_sortCategories)
    from studentDataOf_time_scored [OF this ds]
    show "list_all2 (\<lambda>s d. time_scored (firstPerKey level (categories (sortCategories a)))
              (find_completions db
                 (map cat_id (firstPerKey level (categories (sortCategories a)))) (student_id s))
              d)
            students ds"
      by (rule list_all2_mono) blast
  qed
  show ?thesis using ds ids out sq tm by blast
qed

text \<open>
  For the scores 90, 90 and 80 of one point activity the ranks are 1, 2 and 3. For the time
  activity the averages 20 and 30 seconds on three levels are ranked 1 and 2, ascending, and
  the average of 5 seconds on two levels is not ranked.
\<close>

theorem activity_rankings_sequential_policy_witness:
  "fst (generateActivityRankings db3 roster3 pointActivity1) =
     Inr [\<lparr>rd_data = \<lparr>sd_studentId = 1, sd_score = Some 90,
                      sd_completions = [mkCompletion (mkCategory Point 1 1 0) 1 90 30 10]\<rparr>,
           rank = Some 1\<rparr>,
          \<lparr>rd_data = \<lparr>sd_studentId = 2, sd_score = Some 90,
                      sd_completions = [mkCompletion (mkCategory Point 1 1 0) 2 90 30 10]\<rparr>,
           rank = Some 2\<rparr>,
          \<lparr>rd_data = \<lparr>sd_studentId = 3, sd_score = Some 80,
                      sd_completions = [mkCompletion (mkCategory Point 1 1 0) 3 80 30 10]\<rparr>,
           rank = Some 3\<rparr>]
   \<and> (\<exists>ds out. studentDataOf db3 roster3 (sortCategories pointActivity1) = Inr ds
     \<and> map sd_studentId ds = map student_id roster3
     \<and> fst (generateActivityRankings db3 roster3 pointActivity1) = Inr out
     \<and> sequentially_ranked (act_game_type pointActivity1) ds out
     \<and> (act_game_type pointActivity1 = Time \<longrightarrow>
          list_all2 (\<lambda>s d. time_scored (firstPerKey level (categories (sortCategories pointActivity1)))
              (find_completions db3
                 (map cat_id (firstPerKey level (categories (sortCategories pointActivity1)))) (student_id s))
              d)
            roster3 ds))
   \<and> act_game_type timeActivity1 = Time
   \<and> map (\<lambda>e. (sd_studentId (rd_data e), sd_score (rd_data e),
                 length (sd_completions (rd_data e)), rank e))
        (projr (fst (generateActivityRankings dbTime roster3 timeActivity1)))
      = [(1, Some 20, 3, Some 1), (3, Some 30, 3, Some 2), (2, Some 5, 2, None)]
   \<and> (\<exists>ds out. studentDataOf dbTime roster3 (sortCategories timeActivity1) = Inr ds
     \<and> map sd_studentId ds = map student_id roster3
     \<and> fst (generateActivityRankings dbTime roster3 timeActivity1) = Inr out
     \<and> sequentially_ranked (act_game_type timeActivity1) ds out
     \<and> (act_game_type timeActivity1 = Time \<longrightarrow>
          list_all2 (\<lambda>s d. time_scored (firstPerKey level (categories (sortCategories timeActivity1)))
              (find_completions dbTime
                 (map cat_id (firstPerKey level (categories (sortCategories timeActivity1)))) (student_id s))
              d)
            roster3 ds))"
proof -
  have e: "fst (generateActivityRankings db3 roster3 pointActivity1) =
     Inr [\<lparr>rd_data = \<lparr>sd_studentId = 1, sd_score = Some 90,
                      sd_completions = [mkCompletion (mkCategory Point 1 1 0) 1 90 30 10]\<rparr>,
           rank = Some 1\<rparr>,
          \<lparr>rd_data = \<lparr>sd_studentId = 2, sd_score = Some 90,
                      sd_completions = [mkCompletion (mkCategory Point 1 1 0) 2 90 30 10]\<rparr>,
           rank = Some 2\<rparr>,
          \<lparr>rd_data = \<lparr>sd_studentId = 3, sd_score = Some 80,
                      sd_completions = [mkCompletion (mkCategory Point 1 1 0) 3 80 30 10]\<rparr>,
           rank = Some 3\<rparr>]"
    by code_simp
  have g: "act_game_type timeActivity1 = Time"
    by (simp add: timeActivity1_def)
  have v: "map (\<lambda>e. (sd_studentId (rd_data e), sd_score (rd_data e),
                 length (sd_completions (rd_data e)), rank e))
        (projr (fst (generateActivityRankings dbTime roster3 timeActivity1)))
      = [(1, Some 20, 3, Some 1), (3, Some 30, 3, Some 2), (2, Some 5, 2, None)]"
    by code_simp
  note p = activity_rankings_sequential_policy [of db3 roster3 pointActivity1]
  note t = activity_rankings_sequential_policy [of dbTime roster3 timeActivity1]
  show ?thesis
    by (intro conjI) (fact e p g v t)+
qed

text \<open>
  C3. The claim asks, for both policies, that the students without a score follow all scored
  students, have rank null and stand in ascending order of full name. The sequential policy
  does not sort by name: \<open>generateActivityRankings\<close> keeps its unranked entries in the
  order of the roster. For a roster that lists Ben Cruz before Ana Cruz, both without
  completions, the output lists Ben before Ana. And for a time game its unranked entries
  include scored students: for a roster that lists student 4, without completions, before
  student 2, with two completions, the output lists the student without score before the
  scored one.
\<close>

theorem unranked_name_order_counterexample:
  "fst (generateActivityRankings [] rosterBenAna pointActivity1) =
     Inr [\<lparr>rd_data = \<lparr>sd_studentId = 1, sd_score = None, sd_completions = []\<rparr>, rank = None\<rparr>,
          \<lparr>rd_data = \<lparr>sd_studentId = 2, sd_score = None, sd_completions = []\<rparr>, rank = None\<rparr>]
   \<and> student_id (rosterBenAna ! 0) = 1 \<and> fullName (rosterBenAna ! 0) = ''Ben Cruz''
   \<and> student_id (rosterBenAna ! 1) = 2 \<and> fullName (rosterBenAna ! 1) = ''Ana Cruz''
   \<and> ''Ana Cruz'' < ''Ben Cruz''
   \<and> act_game_type timeActivity1 = Time
   \<and> fst (generateActivityRankings dbTime rosterDanBen timeActivity1) =
     Inr [\<lparr>rd_data = \<lparr>sd_studentId = 4, sd_score = None, sd_completions = []\<rparr>, rank = None\<rparr>,
          \<lparr>rd_data = \<lparr>sd_studentId = 2, sd_score = Some 5,
                      sd_completions = [mkCompletion (mkCategory Time 1 1 0) 2 0 5 103,
                                        mkCompletion (mkCategory Time 2 2 0) 2 0 5 104]\<rparr>,
           rank = None\<rparr>]"
  by code_simp

text \<open>
  C3, as amended. An overall ranking (competition policy) returns two lists, which together
  hold every student of the roster once with the overall score: the ranked list holds
  the scored students, each with a rank, and the unranked list the students without a score,
  each with rank null, in ascending order of full name under the collation. Under the
  sequential policy every entry without a score has rank null; the entries with rank null
  come after all ranked entries; for point and stage games they are the entries without a
  score, which therefore come after all scored ones, whereas for a time game they include the
  scored entries with fewer than three completions; and they are the entries that the
  ranking filter rejects, in the order of the roster, not of the names.
\<close>

theorem unranked_students_placement:
  fixes collate :: "string \<Rightarrow> 'k::linorder"
  shows "(let r = fst (generateOverallExamRankings collate students)
          in mset (map (\<lambda>s. (es_student s, overallExamScore s))
                     (rankedExamStudents r @ unrankedExamStudents r))
               = mset (map (\<lambda>s. (sortExamCompletions s,
                                   overallExamScore (transformExamStudent s))) students)
           \<and> (\<forall>s\<in>set (rankedExamStudents r). overallExamScore s \<noteq> None \<and> overallExamRank s \<noteq> None)
           \<and> (\<forall>s\<in>set (unrankedExamStudents r). overallExamScore s = None \<and> overallExamRank s = None)
           \<and> sorted (map (\<lambda>s. collate (fullName (es_student s))) (unrankedExamStudents r)))
       \<and> (let r = fst (generateOverallActivityRankings collate students)
          in mset (map (\<lambda>s. (as_student s, overallActivityScore s))
                     (rankedActivityStudents r @ unrankedActivityStudents r))
               = mset (map (\<lambda>s. (sortActivityCompletions s,
                                   overallActivityScore (transformActivityStudent s))) students)
           \<and> (\<forall>s\<in>set (rankedActivityStudents r).
                 overallActivityScore s \<noteq> None \<and> overallActivityRank s \<noteq> None)
           \<and> (\<forall>s\<in>set (unrankedActivityStudents r).
                 overallActivityScore s = None \<and> overallActivityRank s = None)
           \<and> sorted (map (\<lambda>s. collate (fullName (as_student s))) (unrankedActivityStudents r)))
       \<and> (\<exists>ds out. studentDataOf db students (sortCategories a) = Inr ds
             \<and> map sd_studentId ds = map student_id students
             \<and> fst (generateActivityRankings db students a) = Inr out
             \<and> (\<forall>e\<in>set out. sd_score (rd_data e) = None \<longrightarrow> rank e = None)
             \<and> (let n = length (filter (eligible (act_game_type a)) ds)
                in (\<forall>i<length out. (rank (out ! i) = None) = (n \<le> i))
                 \<and> (act_game_type a \<noteq> Time \<longrightarrow>
                      (\<forall>i<length out. (sd_score (rd_data (out ! i)) = None) = (n \<le> i)))
                 \<and> map rd_data (drop n out) = filter (\<lambda>d. \<not> eligible (act_game_type a) d) ds))"
proof (intro conjI)
  show "let r = fst (generateOverallExamRankings collate students)
          in mset (map (\<lambda>s. (es_student s, overallExamScore s))
                     (rankedExamStudents r @ unrankedExamStudents r))
               = mset (map (\<lambda>s. (sortExamCompletions s,
                                   overallExamScore (transformExamStudent s))) students)
           \<and> (\<forall>s\<in>set (rankedExamStudents r). overallExamScore s \<noteq> None \<and> overallExamRank s \<noteq> None)
           \<and> (\<forall>s\<in>set (unrankedExamStudents r). overallExamScore s = None \<and> overallExamRank s = None)
           \<and> sorted (map (\<lambda>s. collate (fullName (es_student s))) (unrankedExamStudents r))"
    unfolding Let_def
    using exam_rankings_scores [of collate students]
      ranked_exam_rank [of _ collate students] unranked_exam_rank [of _ collate students]
      unranked_exam_sorted [of collate students]
    by blast
  show "let r = fst (generateOverallActivityRankings collate students)
          in mset (map (\<lambda>s. (as_student s, overallActivityScore s))
                     (rankedActivityStudents r @ unrankedActivityStudents r))
               = mset (map (\<lambda>s. (sortActivityCompletions s,
                                   overallActivityScore (transformActivityStudent s))) students)
           \<and> (\<forall>s\<in>set (rankedActivityStudents r).
                 overallActivityScore s \<noteq> None \<and> overallActivityRank s \<noteq> None)
           \<and> (\<forall>s\<in>set (unrankedActivityStudents r).
                 overallActivityScore s = None \<and> overallActivityRank s = None)
           \<and> sorted (map (\<lambda>s. collate (fullName (as_student s))) (unrankedActivityStudents r))"
    unfolding Let_def
    using activity_rankings_scores [of collate students]
      ranked_activity_rank [of _ collate students] unranked_activity_rank [of _ collate students]
      unranked_activity_sorted [of collate students]
    by blast
  obtain ds where ds: "studentDataOf db students (sortCategories a) = Inr ds"
    and ids: "map sd_studentId ds = map student_id students"
    using studentDataOf_Inr by blast
  let ?out = "rankStudentData (act_game_type a) ds"
  have out: "fst (generateActivityRankings db students a) = Inr ?out"
    using generateActivityRankings_fst [OF ds] .
  have p: "\<forall>e\<in>set ?out. sd_score (rd_data e) = None \<longrightarrow> rank e = None"
    using rankStudentData_null_score by blast
  have q: "let n = length (filter (eligible (act_game_type a)) ds)
                in (\<forall>i<length ?out. (rank (?out ! i) = None) = (n \<le> i))
                 \<and> (act_game_type a \<noteq> Time \<longrightarrow>
                      (\<forall>i<length ?out. (sd_score (rd_data (?out ! i)) = None) = (n \<le> i)))
                 \<and> map rd_data (drop n ?out) = filter (\<lambda>d. \<not> eligible (act_game_type a) d) ds"
    unfolding Let_def
    using rankStudentData_rank_None_iff [of _ "act_game_type a" ds]
      rankStudentData_null_score_iff [of "act_game_type a" _ ds]
      rankStudentData_unranked_part [of "act_game_type a" ds]
    by blast
  show "\<exists>ds out. studentDataOf db students (sortCategories a) = Inr ds
             \<and> map sd_studentId ds = map student_id students
             \<and> fst (generateActivityRankings db students a) = Inr out
             \<and> (\<forall>e\<in>set out. sd_score (rd_data e) = None \<longrightarrow> rank e = None)
             \<and> (let n = length (filter (eligible (act_game_type a)) ds)
                in (\<forall>i<length out. (rank (out ! i) = None) = (n \<le> i))
                 \<and> (act_game_type a \<noteq> Time \<longrightarrow>
                      (\<forall>i<length out. (sd_score (rd_data (out ! i)) = None) = (n \<le> i)))
                 \<and> map rd_data (drop n out) = filter (\<lambda>d. \<not> eligible (act_game_type a) d) ds)"
    using ds ids out p q by blast
qed

text \<open>
  In the roster of five, Dan Cruz stands before Bea Cruz. The overall rankings list Bea
  before Dan; the ranking of the time activity lists the unranked students 2, 4 (Dan) and
  5 (Bea) as the roster does. In the ranking of the point activity the one scored student
  stands before the four students without a score.
\<close>

theorem unranked_students_placement_witness:
  "map (\<lambda>s. fullName (es_student s))
     (unrankedExamStudents (fst (generateOverallExamRankings (\<lambda>s :: string. s) roster5)))
     = [''Bea Cruz'', ''Dan Cruz'']
   \<and> map (\<lambda>s. fullName (as_student s))
     (unrankedActivityStudents (fst (generateOverallActivityRankings (\<lambda>s :: string. s) roster5)))
     = [''Bea Cruz'', ''Dan Cruz'']
   \<and> map (\<lambda>e. (sd_studentId (rd_data e), sd_score (rd_data e), rank e))
        (projr (fst (generateActivityRankings dbTime roster5 timeActivity1)))
      = [(1, Some 20, Some 1), (3, Some 30, Some 2), (2, Some 5, None), (4, None, None),
         (5, None, None)]
   \<and> ((let r = fst (generateOverallExamRankings (\<lambda>s :: string. s) roster5)
          in mset (map (\<lambda>s. (es_student s, overallExamScore s))
                     (rankedExamStudents r @ unrankedExamStudents r))
               = mset (map (\<lambda>s. (sortExamCompletions s,
                                   overallExamScore (transformExamStudent s))) roster5)
           \<and> (\<forall>s\<in>set (rankedExamStudents r). overallExamScore s \<noteq> None \<and> overallExamRank s \<noteq> None)
           \<and> (\<forall>s\<in>set (unrankedExamStudents r). overallExamScore s = None \<and> overallExamRank s = None)
           \<and> sorted (map (\<lambda>s. (\<lambda>s :: string. s) (fullName (es_student s))) (unrankedExamStudents r)))
       \<and> (let r = fst (generateOverallActivityRankings (\<lambda>s :: string. s) roster5)
          in mset (map (\<lambda>s. (as_student s, overallActivityScore s))
                     (rankedActivityStudents r @ unrankedActivityStudents r))
               = mset (map (\<lambda>s. (sortActivityCompletions s,
                                   overallActivityScore (transformActivityStudent s))) roster5)
           \<and> (\<forall>s\<in>set (rankedActivityStudents r).
                 overallActivityScore s \<noteq> None \<and> overallActivityRank s \<noteq> None)
           \<and> (\<forall>s\<in>set (unrankedActivityStudents r).
                 overallActivityScore s = None \<and> overallActivityRank s = None)
           \<and> sorted (map (\<lambda>s. (\<lambda>s :: string. s) (fullName (as_student s))) (unrankedActivityStudents r)))
       \<and> (\<exists>ds out. studentDataOf dbTime roster5 (sortCategories timeActivity1) = Inr ds
             \<and> map sd_studentId ds = map student_id roster5
             \<and> fst (generateActivityRankings dbTime roster5 timeActivity1) = Inr out
             \<and> (\<forall>e\<in>set out. sd_score (rd_data e) = None \<longrightarrow> rank e = None)
             \<and> (let n = length (filter (eligible (act_game_type timeActivity1)) ds)
                in (\<forall>i<length out. (rank (out ! i) = None) = (n \<le> i))
                 \<and> (act_game_type timeActivity1 \<noteq> Time \<longrightarrow>
                      (\<forall>i<length out. (sd_score (rd_data (out ! i)) = None) = (n \<le> i)))
                 \<and> map rd_data (drop n out) = filter (\<lambda>d. \<not> eligible (act_game_type timeActivity1) d) ds)))
   \<and> act_game_type pointActivity3 \<noteq> Time
   \<and> map (\<lambda>e. (sd_studentId (rd_data e), sd_score (rd_data e), rank e))
        (projr (fst (generateActivityRankings dbPoint roster5 pointActivity3)))
      = [(1, Some 140, Some 1), (2, None, None), (3, None, None), (4, None, None),
         (5, None, None)]
   \<and> (\<exists>ds out. studentDataOf dbPoint roster5 (sortCategories pointActivity3) = Inr ds
             \<and> map sd_studentId ds = map student_id roster5
             \<and> fst (generateActivityRankings dbPoint roster5 pointActivity3) = Inr out
             \<and> (\<forall>e\<in>set out. sd_score (rd_data e) = None \<longrightarrow> rank e = None)
             \<and> (let n = length (filter (eligible (act_game_type pointActivity3)) ds)
                in (\<forall>i<length out. (rank (out ! i) = None) = (n \<le> i))
                 \<and> (act_game_type pointActivity3 \<noteq> Time \<longrightarrow>
                      (\<forall>i<length out. (sd_score (rd_data (out ! i)) = None) = (n \<le> i)))
                 \<and> map rd_data (drop n out) = filter (\<lambda>d. \<not> eligible (act_game_type pointActivity3) d) ds))"
proof -
  have e: "map (\<lambda>s. fullName (es_student s))
     (unrankedExamStudents (fst (generateOverallExamRankings (\<lambda>s :: string. s) roster5)))
     = [''Bea Cruz'', ''Dan Cruz'']"
    by code_simp
  have a: "map (\<lambda>s. fullName (as_student s))
     (unrankedActivityStudents (fst (generateOverallActivityRankings (\<lambda>s :: string. s) roster5)))
     = [''Bea Cruz'', ''Dan Cruz'']"
    by code_simp
  have s: "map (\<lambda>e. (sd_studentId (rd_data e), sd_score (rd_data e), rank e))
        (projr (fst (generateActivityRankings dbTime roster5 timeActivity1)))
      = [(1, Some 20, Some 1), (3, Some 30, Some 2), (2, Some 5, None), (4, None, None),
         (5, None, None)]"
    by code_simp
  have g: "act_game_type pointActivity3 \<noteq> Time"
    by (simp add: pointActivity3_def)
  have p: "map (\<lambda>e. (sd_studentId (rd_data e), sd_score (rd_data e), rank e))
        (projr (fst (generateActivityRankings dbPoint roster5 pointActivity3)))
      = [(1, Some 140, Some 1), (2, None, None), (3, None, None), (4, None, None),
         (5, None, None)]"
    by code_simp
  note t = unranked_students_placement [where db = dbTime and students = roster5
      and a = timeActivity1 and collate = "\<lambda>s :: string. s"]
  note u = unranked_students_placement [where db = dbPoint and students = roster5
      and a = pointActivity3 and collate = "\<lambda>s :: string. s"]
  show ?thesis
    by (intro conjI)
      (fact e a s g p t [THEN conjunct1] t [THEN conjunct2, THEN conjunct1]
        t [THEN conjunct2, THEN conjunct2] u [THEN conjunct2, THEN conjunct2])+
qed

text \<open>
  C4. For a point activity \<open>generateActivityRankings\<close> computes for every student of the
  roster, over the unique-level categories and the student's completions in them: one
  canonical completion for each category that has a completion, namely one of maximal score
  and, among those, of minimal \<open>timeCompletedSeconds\<close>; the score is the sum of the scores
  of these canonical completions, so a category without completion adds nothing; and the
  score is null exactly when no category has a completion. The ranked output carries
  exactly these data.
\<close>

theorem point_based_canonical_completions_and_score:
  assumes "act_game_type a = Point"
  shows "\<exists>ds out. studentDataOf db students (sortCategories a) = Inr ds
     \<and> list_all2 (\<lambda>s d. sd_studentId d = student_id s \<and>
          point_scored (firstPerKey level (categories (sortCategories a)))
            (find_completions db
               (map cat_id (firstPerKey level (categories (sortCategories a)))) (student_id s))
            d)
         students ds
     \<and> fst (generateActivityRankings db students a) = Inr out
     \<and> mset (map rd_data out) = mset ds"
proof -
  let ?cats = "firstPerKey level (categories (sortCategories a))"
  let ?f = "\<lambda>s. studentDatum Point ?cats
                  (find_completions db (map cat_id ?cats) (student_id s)) (student_id s)"
  obtain ds where ds: "studentDataOf db students (sortCategories a) = Inr ds"
    using studentDataOf_Inr by blast
  have gt: "act_game_type (sortCategories a) = Point"
    using assms by (simp add: sortCategories_def)
  have "promise_all (map ?f students) = Inr ds"
    using ds unfolding studentDataOf_def Let_def gt .
  then have "list_all2 (\<lambda>s d. ?f s = Inr d) students ds"
    by (rule promise_all_list_all2)
  then have sc: "list_all2 (\<lambda>s d. sd_studentId d = student_id s \<and>
          point_scored ?cats (find_completions db (map cat_id ?cats) (student_id s)) d) students ds"
    by (rule list_all2_mono) (use studentDatum_point_scored in blast)
  have out: "fst (generateActivityRankings db students a) = Inr (rankStudentData (act_game_type a) ds)"
    using generateActivityRankings_fst [OF ds] .
  show ?thesis
    using ds sc out mset_rankStudentData [of "act_game_type a" ds] by blast
qed

text \<open>
  Levels 1, 2 and 3; student 1 scored 80 twice (in 40 and in 30 seconds) and 70 at level 1,
  60 at level 3 and has no completion at level 2: the canonical completions are the 80 in
  30 seconds and the 60, and the score is 140.
\<close>

theorem point_based_canonical_completions_and_score_witness:
  "act_game_type pointActivity3 = Point
   \<and> map (\<lambda>e. (sd_studentId (rd_data e), sd_score (rd_data e),
                 map (\<lambda>c. (score c, timeCompletedSeconds c)) (sd_completions (rd_data e)), rank e))
        (projr (fst (generateActivityRankings dbPoint roster3 pointActivity3)))
      = [(1, Some 140, [(80, 30), (60, 50)], Some 1), (2, None, [], None), (3, None, [], None)]
   \<and> (\<exists>ds out. studentDataOf dbPoint roster3 (sortCategories pointActivity3) = Inr ds
     \<and> list_all2 (\<lambda>s d. sd_studentId d = student_id s \<and>
          point_scored (firstPerKey level (categories (sortCategories pointActivity3)))
            (find_completions dbPoint
               (map cat_id (firstPerKey level (categories (sortCategories pointActivity3)))) (student_id s))
            d)
         roster3 ds
     \<and> fst (generateActivityRankings dbPoint roster3 pointActivity3) = Inr out
     \<and> mset (map rd_data out) = mset ds)"
proof -
  have g: "act_game_type pointActivity3 = Point"
    by (simp add: pointActivity3_def)
  have e: "map (\<lambda>e. (sd_studentId (rd_data e), sd_score (rd_data e),
                 map (\<lambda>c. (score c, timeCompletedSeconds c)) (sd_completions (rd_data e)), rank e))
        (projr (fst (generateActivityRankings dbPoint roster3 pointActivity3)))
      = [(1, Some 140, [(80, 30), (60, 50)], Some 1), (2, None, [], None), (3, None, [], None)]"
    by code_simp
  note t = point_based_canonical_completions_and_score [OF g, of dbPoint roster3]
  show ?thesis
    by (intro conjI) (fact g e t)+
qed

text \<open>
  C5. In \<open>generateOverallActivityRankings\<close> a time activity with completions in three
  distinct levels contributes the reciprocal of a third of the sum of the \<open>score\<close> fields
  of these completions; \<open>timeCompletedSeconds\<close> is not read. For the times 10, 20 and 30
  seconds with a score of 5 each the contribution is 1/5 and not 1/20, and with a score
  of 0 each it is 0. With two levels only, the contribution is 0.
\<close>

theorem time_activity_contribution_uses_score:
  "map timeCompletedSeconds (activityCompletions studentThreeTiers) = [10, 20, 30]
   \<and> overallActivityScore (transformActivityStudent studentThreeTiers) = Some (1 / 5)
   \<and> overallActivityScore (transformActivityStudent studentThreeTiers) \<noteq> Some (1 / 20)
   \<and> map timeCompletedSeconds (activityCompletions studentThreeTiersNoScore) = [10, 20, 30]
   \<and> overallActivityScore (transformActivityStudent studentThreeTiersNoScore) = Some 0
   \<and> overallActivityScore (transformActivityStudent studentTwoTiers) = Some 0"
  by code_simp

text \<open>
  C6. For a time activity \<open>generateActivityRankings\<close> computes for every student of the
  roster the canonical completions, one of minimal time for each unique-level category in
  which the student has a completion, and the mean of their times as score; it leaves exactly
  the students without a score or with fewer than three canonical completions unranked
  (rank null), whether or not the average time is a number, and the unranked entries come
  after all ranked ones; every student with a score and at least three canonical completions
  is ranked.
\<close>

theorem time_based_three_completion_gate:
  assumes "act_game_type a = Time"
  shows "\<exists>ds out. studentDataOf db students (sortCategories a) = Inr ds
     \<and> list_all2 (\<lambda>s d. sd_studentId d = student_id s \<and>
          time_scored (firstPerKey level (categories (sortCategories a)))
            (find_completions db
               (map cat_id (firstPerKey level (categories (sortCategories a)))) (student_id s))
            d)
         students ds
     \<and> fst (generateActivityRankings db students a) = Inr out
     \<and> mset (map rd_data out) = mset ds
     \<and> (\<forall>e\<in>set out. (rank e = None)
           = (sd_score (rd_data e) = None \<or> length (sd_completions (rd_data e)) < 3))
     \<and> (\<forall>i<length out. \<forall>j<length out. i \<le> j \<and> rank (out ! i) = None
           \<longrightarrow> rank (out ! j) = None)"
proof -
  obtain ds where ds: "studentDataOf db students (sortCategories a) = Inr ds"
    using studentDataOf_Inr by blast
  let ?out = "rankStudentData Time ds"
  have gt: "act_game_type (sortCategories a) = Time"
    using assms by (simp add: sortCategories_def)
  have sc: "list_all2 (\<lambda>s d. sd_studentId d = student_id s \<and>
          time_scored (firstPerKey level (categories (sortCategories a)))
            (find_completions db
               (map cat_id (firstPerKey level (categories (sortCategories a)))) (student_id s))
            d)
         students ds"
    using gt ds by (rule studentDataOf_time_scored)
  have out: "fst (generateActivityRankings db students a) = Inr ?out"
    using generateActivityRankings_fst [OF ds] assms by simp
  have m: "mset (map rd_data ?out) = mset ds" by (rule mset_rankStudentData)
  have g: "\<forall>e\<in>set ?out. (rank e = None)
         = (sd_score (rd_data e) = None \<or> length (sd_completions (rd_data e)) < 3)"
    using rank_rankStudentData [of _ Time ds] by (auto simp: eligible_def)
  have s: "\<forall>i<length ?out. \<forall>j<length ?out. i \<le> j \<and> rank (?out ! i) = None \<longrightarrow> rank (?out ! j) = None"
    using rank_None_suffix [OF rankStudentData_sequential [of Time ds]] by blast
  show ?thesis using ds sc out m g s by blast
qed

text \<open>
  Student 2 has the best average (5 seconds) on two levels only and is unranked; student 4
  has three attempts, all at level 1, hence one canonical completion (7 seconds), and is
  unranked; students 1 and 3 are ranked 1 and 2.
\<close>

theorem time_based_three_completion_gate_witness:
  "act_game_type timeActivity1 = Time \<and>
   (\<exists>ds out. map (\<lambda>e. (sd_studentId (rd_data e), sd_score (rd_data e),
                 length (sd_completions (rd_data e)), rank e)) out
        = [(1, Some 20, 3, Some 1), (3, Some 30, 3, Some 2), (2, Some 5, 2, None),
           (4, Some 7, 1, None), (5, None, 0, None)]
     \<and> studentDataOf dbTimeRepeated roster5 (sortCategories timeActivity1) = Inr ds
     \<and> list_all2 (\<lambda>s d. sd_studentId d = student_id s \<and>
          time_scored (firstPerKey level (categories (sortCategories timeActivity1)))
            (find_completions dbTimeRepeated
               (map cat_id (firstPerKey level (categories (sortCategories timeActivity1)))) (student_id s))
            d)
         roster5 ds
     \<and> fst (generateActivityRankings dbTimeRepeated roster5 timeActivity1) = Inr out
     \<and> mset (map rd_data out) = mset ds
     \<and> (\<forall>e\<in>set out. (rank e = None)
           = (sd_score (rd_data e) = None \<or> length (sd_completions (rd_data e)) < 3))
     \<and> (\<forall>i<length out. \<forall>j<length out. i \<le> j \<and> rank (out ! i) = None
           \<longrightarrow> rank (out ! j) = None))"
proof -
  have g: "act_game_type timeActivity1 = Time"
    by (simp add: timeActivity1_def)
  have e: "map (\<lambda>e. (sd_studentId (rd_data e), sd_score (rd_data e),
                 length (sd_completions (rd_data e)), rank e))
             (projr (fst (generateActivityRankings dbTimeRepeated roster5 timeActivity1)))
        = [(1, Some 20, 3, Some 1), (3, Some 30, 3, Some 2), (2, Some 5, 2, None),
           (4, Some 7, 1, None), (5, None, 0, None)]"
    by code_simp
  from time_based_three_completion_gate [OF g, of dbTimeRepeated roster5]
  obtain ds out where t: "studentDataOf dbTimeRepeated roster5 (sortCategories timeActivity1) = Inr ds
     \<and> list_all2 (\<lambda>s d. sd_studentId d = student_id s \<and>
          time_scored (firstPerKey level (categories (sortCategories timeActivity1)))
            (find_completions dbTimeRepeated
               (map cat_id (firstPerKey level (categories (sortCategories timeActivity1)))) (student_id s))
            d)
         roster5 ds
     \<and> fst (generateActivityRankings dbTimeRepeated roster5 timeActivity1) = Inr out
     \<and> mset (map rd_data out) = mset ds
     \<and> (\<forall>e\<in>set out. (rank e = None)
           = (sd_score (rd_data e) = None \<or> length (sd_completions (rd_data e)) < 3))
     \<and> (\<forall>i<length out. \<forall>j<length out. i \<le> j \<and> rank (out ! i) = None
           \<longrightarrow> rank (out ! j) = None)"
    by blast
  then have out: "fst (generateActivityRankings dbTimeRepeated roster5 timeActivity1) = Inr out"
    by blast
  have m: "map (\<lambda>e. (sd_studentId (rd_data e), sd_score (rd_data e),
                 length (sd_completions (rd_data e)), rank e)) out
        = [(1, Some 20, 3, Some 1), (3, Some 30, 3, Some 2), (2, Some 5, 2, None),
           (4, Some 7, 1, None), (5, None, 0, None)]"
    using e by (simp only: out sum.sel)
  show ?thesis
    by (intro conjI exI [of _ ds] exI [of _ out]) (fact g m t [THEN conjunct1]
        t [THEN conjunct2, THEN conjunct1]
        t [THEN conjunct2, THEN conjunct2, THEN conjunct1]
        t [THEN conjunct2, THEN conjunct2, THEN conjunct2, THEN conjunct1]
        t [THEN conjunct2, THEN conjunct2, THEN conjunct2, THEN conjunct2, THEN conjunct1]
        t [THEN conjunct2, THEN conjunct2, THEN conjunct2, THEN conjunct2, THEN conjunct2])+
qed

text \<open>
  C7. The overall exam ranking sorts a student's exam completions by \<open>submittedAt\<close>,
  latest first, before it keeps the first completion per exam id
  (\<open>exam_ranking_dedup_keeps_latest\<close> above). The detailed exam performance filters the
  array as stored, without that sort, and only afterwards calls the ranking: it keeps the
  first stored completion of each exam. For the two attempts at 10:00 (70 points) and 11:00
  (90 points) at an exam with 75 passing points, stored in this order, it counts the exam as
  failed and none as passed, while the overall score it reports next to these counts is
  the 90 of the later attempt.
\<close>

theorem exam_performance_keeps_first_stored_completion:
  "fst (generateOverallExamDetailedPerformance (\<lambda>s :: string. s) 50000000 [exam1]
          studentTwoAttempts []) =
     Inr \<lparr>currentExamCount = 1, examsCompletedCount = 1, examsPassedCount = 0,
          examsFailedCount = 1, examsExpiredCount = 0,
          perf_overallExamRank = Some 1, perf_overallExamScore = Some 90\<rparr>"
  by code_simp

text \<open>
  C8. When the deduplicated (unique-level) category set of an activity is empty, then for
  every game type, stage games included, \<open>generateActivityRankings\<close> returns without an
  error one entry per student, each with a null score, and
  \<open>generateActivityWithCompletions\<close> returns without an error a null score. The fetch
  with \<open>In([])\<close> yields no completion, so the read of \<open>targetCategory.id\<close> on the null
  target category of the stage branch is never reached.
\<close>

theorem no_categories_null_score:
  assumes "firstPerKey level (categories (sortCategories a)) = []"
  shows "(\<exists>out. fst (generateActivityRankings db students a) = Inr out
            \<and> length out = length students
            \<and> (\<forall>e\<in>set out. sd_score (rd_data e) = None))
       \<and> (\<exists>r. fst (generateActivityWithCompletions db a sid) = Inr r \<and> awc_score r = None)"
proof
  let ?ds = "map (\<lambda>s. \<lparr>sd_studentId = student_id s, sd_score = None, sd_completions = []\<rparr>) students"
  let ?out = "rankStudentData (act_game_type a) ?ds"
  have out: "fst (generateActivityRankings db students a) = Inr ?out"
    using generateActivityRankings_fst [OF studentDataOf_no_categories [OF assms]] .
  have eq: "set (map rd_data ?out) = set ?ds"
    using mset_rankStudentData [of "act_game_type a" ?ds] by (metis set_mset_mset)
  have none: "\<forall>d\<in>set ?ds. sd_score d = None" by simp
  have "\<forall>e\<in>set ?out. sd_score (rd_data e) = None"
  proof
    fix e assume "e \<in> set ?out"
    then have "rd_data e \<in> set (map rd_data ?out)" by simp
    then have "rd_data e \<in> set ?ds" unfolding eq .
    then show "sd_score (rd_data e) = None" using none by blast
  qed
  moreover have "length ?out = length students" by (simp add: length_rankStudentData)
  ultimately show "\<exists>out. fst (generateActivityRankings db students a) = Inr out
            \<and> length out = length students
            \<and> (\<forall>e\<in>set out. sd_score (rd_data e) = None)"
    using out by blast
  show "\<exists>r. fst (generateActivityWithCompletions db a sid) = Inr r \<and> awc_score r = None"
    using assms by (rule generateActivityWithCompletions_score)
qed

text \<open>A stage activity without categories, over a completion table that is not empty.\<close>

theorem no_categories_null_score_witness:
  "firstPerKey level (categories (sortCategories stageActivity0)) = []
   \<and> fst (generateActivityRankings dbTime roster3 stageActivity0) =
       Inr [\<lparr>rd_data = \<lparr>sd_studentId = 1, sd_score = None, sd_completions = []\<rparr>, rank = None\<rparr>,
            \<lparr>rd_data = \<lparr>sd_studentId = 2, sd_score = None, sd_completions = []\<rparr>, rank = None\<rparr>,
            \<lparr>rd_data = \<lparr>sd_studentId = 3, sd_score = None, sd_completions = []\<rparr>, rank = None\<rparr>]
   \<and> (\<exists>out. fst (generateActivityRankings dbTime roster3 stageActivity0) = Inr out
            \<and> length out = length roster3
            \<and> (\<forall>e\<in>set out. sd_score (rd_data e) = None))
   \<and> (\<exists>r. fst (generateActivityWithCompletions dbTime stageActivity0 1) = Inr r
            \<and> awc_score r = None)"
proof -
  have h: "firstPerKey level (categories (sortCategories stageActivity0)) = []"
    by code_simp
  have e: "fst (generateActivityRankings dbTime roster3 stageActivity0) =
       Inr [\<lparr>rd_data = \<lparr>sd_studentId = 1, sd_score = None, sd_completions = []\<rparr>, rank = None\<rparr>,
            \<lparr>rd_data = \<lparr>sd_studentId = 2, sd_score = None, sd_completions = []\<rparr>, rank = None\<rparr>,
            \<lparr>rd_data = \<lparr>sd_studentId = 3, sd_score = None, sd_completions = []\<rparr>, rank = None\<rparr>]"
    by code_simp
  note t = no_categories_null_score [OF h, of dbTime roster3 1]
  show ?thesis
    by (intro conjI) (fact h e t [THEN conjunct1] t [THEN conjunct2])+
qed

text \<open>
  C9. Every ranking operation outputs exactly the students of its input roster.
  \<open>generateActivityRankings\<close> returns, without error, one entry per student: the student
  ids of the output are the student ids of the roster, each as often as in the roster, so
  without duplicates when the roster has none. Both overall rankings split the roster into
  the ranked list (every rank set) and the unranked list (every rank null), whose
  concatenation again carries exactly the student ids of the roster.
\<close>

theorem ranking_totality:
  fixes collate :: "string \<Rightarrow> 'k::linorder"
  shows "(\<exists>out. fst (generateActivityRankings db students a) = Inr out
            \<and> length out = length students
            \<and> mset (map (\<lambda>e. sd_studentId (rd_data e)) out) = mset (map student_id students)
            \<and> (distinct (map student_id students)
                 \<longrightarrow> distinct (map (\<lambda>e. sd_studentId (rd_data e)) out)))
       \<and> (let r = fst (generateOverallExamRankings collate students);
               both = rankedExamStudents r @ unrankedExamStudents r
           in length both = length students
              \<and> mset (map (\<lambda>s. student_id (es_student s)) both) = mset (map student_id students)
              \<and> (distinct (map student_id students)
                   \<longrightarrow> distinct (map (\<lambda>s. student_id (es_student s)) both))
              \<and> (\<forall>s\<in>set (rankedExamStudents r). overallExamRank s \<noteq> None)
              \<and> (\<forall>s\<in>set (unrankedExamStudents r). overallExamRank s = None))
       \<and> (let r = fst (generateOverallActivityRankings collate students);
               both = rankedActivityStudents r @ unrankedActivityStudents r
           in length both = length students
              \<and> mset (map (\<lambda>s. student_id (as_student s)) both) = mset (map student_id students)
              \<and> (distinct (map student_id students)
                   \<longrightarrow> distinct (map (\<lambda>s. student_id (as_student s)) both))
              \<and> (\<forall>s\<in>set (rankedActivityStudents r). overallActivityRank s \<noteq> None)
              \<and> (\<forall>s\<in>set (unrankedActivityStudents r). overallActivityRank s = None))"
proof (intro conjI)
  show "\<exists>out. fst (generateActivityRankings db students a) = Inr out
            \<and> length out = length students
            \<and> mset (map (\<lambda>e. sd_studentId (rd_data e)) out) = mset (map student_id students)
            \<and> (distinct (map student_id students)
                 \<longrightarrow> distinct (map (\<lambda>e. sd_studentId (rd_data e)) out))"
    using sequential_ids [of db students a] mset_map_distinct by blast
  show "let r = fst (generateOverallExamRankings collate students);
               both = rankedExamStudents r @ unrankedExamStudents r
           in length both = length students
              \<and> mset (map (\<lambda>s. student_id (es_student s)) both) = mset (map student_id students)
              \<and> (distinct (map student_id students)
                   \<longrightarrow> distinct (map (\<lambda>s. student_id (es_student s)) both))
              \<and> (\<forall>s\<in>set (rankedExamStudents r). overallExamRank s \<noteq> None)
              \<and> (\<forall>s\<in>set (unrankedExamStudents r). overallExamRank s = None)"
    unfolding Let_def
    using exam_totality [of collate students]
      mset_map_length [OF exam_totality [of collate students]]
      mset_map_distinct [OF exam_totality [of collate students]]
      ranked_exam_rank [of _ collate students] unranked_exam_rank [of _ collate students]
    by blast
  show "let r = fst (generateOverallActivityRankings collate students);
               both = rankedActivityStudents r @ unrankedActivityStudents r
           in length both = length students
              \<and> mset (map (\<lambda>s. student_id (as_student s)) both) = mset (map student_id students)
              \<and> (distinct (map student_id students)
                   \<longrightarrow> distinct (map (\<lambda>s. student_id (as_student s)) both))
              \<and> (\<forall>s\<in>set (rankedActivityStudents r). overallActivityRank s \<noteq> None)
              \<and> (\<forall>s\<in>set (unrankedActivityStudents r). overallActivityRank s = None)"
    unfolding Let_def
    using activity_totality [of collate students]
      mset_map_length [OF activity_totality [of collate students]]
      mset_map_distinct [OF activity_totality [of collate students]]
      ranked_activity_rank [of _ collate students] unranked_activity_rank [of _ collate students]
    by blast
qed

text \<open>
  A roster of five: for the time activity three of them are unranked, in the overall exam
  ranking two.
\<close>

theorem ranking_totality_witness:
  "distinct (map student_id roster5)
   \<and> map (\<lambda>e. (sd_studentId (rd_data e), rank e))
        (projr (fst (generateActivityRankings dbTime roster5 timeActivity1)))
      = [(1, Some 1), (3, Some 2), (2, None), (4, None), (5, None)]
   \<and> map (\<lambda>s. (student_id (es_student s), overallExamRank s))
        (rankedExamStudents (fst (generateOverallExamRankings (\<lambda>s :: string. s) roster5)))
      = [(1, Some 1), (2, Some 1), (3, Some 3)]
   \<and> map (\<lambda>s. (student_id (es_student s), overallExamRank s))
        (unrankedExamStudents (fst (generateOverallExamRankings (\<lambda>s :: string. s) roster5)))
      = [(5, None), (4, None)]
   \<and> ((\<exists>out. fst (generateActivityRankings dbTime roster5 timeActivity1) = Inr out
            \<and> length out = length roster5
            \<and> mset (map (\<lambda>e. sd_studentId (rd_data e)) out) = mset (map student_id roster5)
            \<and> (distinct (map student_id roster5)
                 \<longrightarrow> distinct (map (\<lambda>e. sd_studentId (rd_data e)) out)))
       \<and> (let r = fst (generateOverallExamRankings (\<lambda>s :: string. s) roster5);
               both = rankedExamStudents r @ unrankedExamStudents r
           in length both = length roster5
              \<and> mset (map (\<lambda>s. student_id (es_student s)) both) = mset (map student_id roster5)
              \<and> (distinct (map student_id roster5)
                   \<longrightarrow> distinct (map (\<lambda>s. student_id (es_student s)) both))
              \<and> (\<forall>s\<in>set (rankedExamStudents r). overallExamRank s \<noteq> None)
              \<and> (\<forall>s\<in>set (unrankedExamStudents r). overallExamRank s = None))
       \<and> (let r = fst (generateOverallActivityRankings (\<lambda>s :: string. s) roster5);
               both = rankedActivityStudents r @ unrankedActivityStudents r
           in length both = length roster5
              \<and> mset (map (\<lambda>s. student_id (as_student s)) both) = mset (map student_id roster5)
              \<and> (distinct (map student_id roster5)
                   \<longrightarrow> distinct (map (\<lambda>s. student_id (as_student s)) both))
              \<and> (\<forall>s\<in>set (rankedActivityStudents r). overallActivityRank s \<noteq> None)
              \<and> (\<forall>s\<in>set (unrankedActivityStudents r). overallActivityRank s = None)))"
proof -
  have d: "distinct (map student_id roster5)"
    by code_simp
  have s: "map (\<lambda>e. (sd_studentId (rd_data e), rank e))
        (projr (fst (generateActivityRankings dbTime roster5 timeActivity1)))
      = [(1, Some 1), (3, Some 2), (2, None), (4, None), (5, None)]"
    by code_simp
  have r: "map (\<lambda>s. (student_id (es_student s), overallExamRank s))
        (rankedExamStudents (fst (generateOverallExamRankings (\<lambda>s :: string. s) roster5)))
      = [(1, Some 1), (2, Some 1), (3, Some 3)]"
    by code_simp
  have u: "map (\<lambda>s. (student_id (es_student s), overallExamRank s))
        (unrankedExamStudents (fst (generateOverallExamRankings (\<lambda>s :: string. s) roster5)))
      = [(5, None), (4, None)]"
    by code_simp
  note t = ranking_totality [where db = dbTime and students = roster5 and a = timeActivity1
      and collate = "\<lambda>s :: string. s"]
  show ?thesis
    by (intro conjI)
      (fact d s r u t [THEN conjunct1] t [THEN conjunct2, THEN conjunct1]
        t [THEN conjunct2, THEN conjunct2])+
qed

text \<open>
  C10. The claim asks that no aggregation operation changes its input arrays, element order
  included. \<open>Array.prototype.sort\<close> sorts in place, and every one of these operations
  calls it on an array of its input. An activity whose categories are stored oldest first
  has them newest first after \<open>generateActivityRankings\<close>.
\<close>

theorem input_arrays_reordered_counterexample:
  "categories activityOldestFirst = [mkCategory Point 21 1 5, mkCategory Point 22 2 9]
   \<and> categories (snd (generateActivityRankings [] [] activityOldestFirst))
       = [mkCategory Point 22 2 9, mkCategory Point 21 1 5]
   \<and> categories (snd (generateActivityRankings [] [] activityOldestFirst))
       \<noteq> categories activityOldestFirst"
  by code_simp

text \<open>
  C10, as amended. The aggregation operations add, remove and change no element of their
  input arrays and no other field of their inputs, but they sort the arrays in place:
  \<open>generateActivityRankings\<close> and \<open>generateActivityWithCompletions\<close> leave the categories
  of the input activity stably sorted by \<open>updatedAt\<close>, latest first; the overall exam
  ranking and the detailed exam performance leave the exam completions of every input
  student stably sorted by \<open>submittedAt\<close>, latest first; the overall activity ranking and
  the detailed activity performance do the same to the activity completions. The elements
  are the same, each as often as before, and an array that is already in this order is
  unchanged.
\<close>

theorem inputs_sorted_in_place:
  fixes collate :: "string \<Rightarrow> 'k::linorder"
  shows "snd (generateActivityRankings db students a)
           = a\<lparr>categories := sort_key (\<lambda>c. - updatedAt c) (categories a)\<rparr>
       \<and> snd (generateActivityWithCompletions db a sid)
           = a\<lparr>categories := sort_key (\<lambda>c. - updatedAt c) (categories a)\<rparr>
       \<and> snd (generateOverallExamRankings collate students)
           = map (\<lambda>s. s\<lparr>examCompletions :=
                          sort_key (\<lambda>c. - ec_submittedAt c) (examCompletions s)\<rparr>) students
       \<and> snd (generateOverallExamDetailedPerformance collate now allExams student others)
           = map (\<lambda>s. s\<lparr>examCompletions :=
                          sort_key (\<lambda>c. - ec_submittedAt c) (examCompletions s)\<rparr>)
               (student # others)
       \<and> snd (generateOverallActivityRankings collate students)
           = map (\<lambda>s. s\<lparr>activityCompletions :=
                          sort_key (\<lambda>c. - submittedAt c) (activityCompletions s)\<rparr>) students
       \<and> snd (generateOverallActivityDetailedPerformance collate allActivities student others)
           = map (\<lambda>s. s\<lparr>activityCompletions :=
                          sort_key (\<lambda>c. - submittedAt c) (activityCompletions s)\<rparr>)
               (student # others)
       \<and> mset (categories (snd (generateActivityRankings db students a))) = mset (categories a)
       \<and> (sorted (map (\<lambda>c. - updatedAt c) (categories a))
            \<longrightarrow> snd (generateActivityRankings db students a) = a
              \<and> snd (generateActivityWithCompletions db a sid) = a)"
proof -
  have e: "map sortExamCompletions
      = map (\<lambda>s. s\<lparr>examCompletions := sort_key (\<lambda>c. - ec_submittedAt c) (examCompletions s)\<rparr>)"
    by (simp add: sortExamCompletions_eq [abs_def])
  have c: "map sortActivityCompletions
      = map (\<lambda>s. s\<lparr>activityCompletions :=
                     sort_key (\<lambda>c. - submittedAt c) (activityCompletions s)\<rparr>)"
    by (simp add: sortActivityCompletions_eq [abs_def])
  have m: "mset (categories (sortCategories a)) = mset (categories a)"
    by (simp add: sortCategories_eq)
  have i: "sorted (map (\<lambda>c. - updatedAt c) (categories a)) \<longrightarrow> sortCategories a = a"
    by (simp add: sortCategories_eq sort_key_id_if_sorted)
  show ?thesis
    unfolding snd_generateActivityRankings snd_generateActivityWithCompletions
      snd_generateOverallExamRankings snd_generateOverallExamDetailedPerformance
      snd_generateOverallActivityRankings snd_generateOverallActivityDetailedPerformance
    using m i by (simp only: e c sortCategories_eq [symmetric] simp_thms)
qed

text \<open>
  The categories of \<open>pointActivity3\<close> are in order and stay as they are; the two exam
  completions of \<open>studentTwoAttempts\<close> are swapped.
\<close>

theorem inputs_sorted_in_place_witness:
  "sorted (map (\<lambda>c. - updatedAt c) (categories pointActivity3))
   \<and> snd (generateActivityRankings dbPoint roster3 pointActivity3) = pointActivity3
   \<and> snd (generateActivityWithCompletions dbPoint pointActivity3 1) = pointActivity3
   \<and> map (\<lambda>s. map ec_score (examCompletions s))
        (snd (generateOverallExamRankings (\<lambda>s :: string. s) [studentTwoAttempts]))
      = [[90, 70]]"
proof -
  have h: "sorted (map (\<lambda>c. - updatedAt c) (categories pointActivity3))"
    by code_simp
  note t = inputs_sorted_in_place [where a = pointActivity3 and db = dbPoint
      and students = roster3 and sid = 1]
  have ab: "snd (generateActivityRankings dbPoint roster3 pointActivity3) = pointActivity3
      \<and> snd (generateActivityWithCompletions dbPoint pointActivity3 1) = pointActivity3"
    using t h by blast
  have e: "snd (generateOverallExamRankings (\<lambda>s :: string. s) [studentTwoAttempts])
      = map (\<lambda>s. s\<lparr>examCompletions :=
                          sort_key (\<lambda>c. - ec_submittedAt c) (examCompletions s)\<rparr>)
          [studentTwoAttempts]"
    using inputs_sorted_in_place [where collate = "\<lambda>s :: string. s"
        and students = "[studentTwoAttempts]"] by blast
  have v: "map (\<lambda>s. map ec_score (examCompletions s))
        (map (\<lambda>s. s\<lparr>examCompletions :=
                          sort_key (\<lambda>c. - ec_submittedAt c) (examCompletions s)\<rparr>)
          [studentTwoAttempts])
      = [[90, 70]]"
    by code_simp
  show ?thesis
    using h ab v unfolding e by blast
qed

end
